theory Spec2Isabelle
  imports Main "HOL-Library.AList"
begin

section \<open>JavaScript strings and numbers\<close>

text \<open>
  A JavaScript string is modelled as a \<^typ>\<open>string\<close>, one \<^typ>\<open>char\<close> per code unit.
  The functions below are the \<open>String.prototype\<close> methods the program calls, with the
  results JavaScript gives outside the comfortable range: \<open>lastIndexOf\<close> answers \<open>-1\<close>
  when the character is absent, \<open>substring\<close> clamps both indices to the string and swaps
  them when they come in the wrong order.
\<close>

fun lastIndexFrom :: "string \<Rightarrow> char \<Rightarrow> nat \<Rightarrow> int" where
  "lastIndexFrom s c 0 = - 1"
| "lastIndexFrom s c (Suc k) = (if s ! k = c then int k else lastIndexFrom s c k)"

definition lastIndexOf :: "string \<Rightarrow> char \<Rightarrow> int" where
  "lastIndexOf s c = lastIndexFrom s c (length s)"

definition clamp_index :: "string \<Rightarrow> int \<Rightarrow> nat" where
  "clamp_index s i = min (nat i) (length s)"

definition substring :: "string \<Rightarrow> int \<Rightarrow> int \<Rightarrow> string" where
  "substring s a b =
     (let lo = min (clamp_index s a) (clamp_index s b);
          hi = max (clamp_index s a) (clamp_index s b)
      in take (hi - lo) (drop lo s))"

text \<open>
  \<open>maxLength * 0.7\<close> is a product of IEEE-754 doubles. The double nearest to \<open>0.7\<close> is
  \<open>6305039478318694 / 2^53\<close> (bits \<open>0x3FE6666666666666\<close>); a length below \<open>2^53\<close> is a
  double itself; the product is the exact product rounded to 53 significant bits, ties to
  even. \<open>round53\<close> is that rounding on naturals, and \<open>gt_times_0_7 l m\<close> is the
  program's comparison \<open>l > m * 0.7\<close>, both sides scaled by \<open>2^53\<close>.
\<close>

fun bit_length :: "nat \<Rightarrow> nat" where
  "bit_length n = (if n = 0 then 0 else Suc (bit_length (n div 2)))"

declare bit_length.simps [simp del]

definition round53 :: "nat \<Rightarrow> nat" where
  "round53 p =
     (let s = bit_length p - 53; q = p div 2 ^ s; r = p mod 2 ^ s
      in if 2 ^ s < 2 * r \<or> (2 * r = 2 ^ s \<and> odd q) then (q + 1) * 2 ^ s else q * 2 ^ s)"

definition times_0_7 :: "nat \<Rightarrow> nat" where
  "times_0_7 m = round53 (m * 6305039478318694)"

definition gt_times_0_7 :: "int \<Rightarrow> nat \<Rightarrow> bool" where
  "gt_times_0_7 l m \<longleftrightarrow> int (times_0_7 m) < l * 2 ^ 53"

section \<open>pol.js: truncateTextForPolly\<close>

text \<open>The constant \<open>lastSentenceEnd\<close> of the function, as a function of \<open>truncated\<close>.\<close>

definition lastSentenceEnd :: "string \<Rightarrow> int" where
  "lastSentenceEnd truncated =
     max (lastIndexOf truncated CHR ''.'')
       (max (lastIndexOf truncated CHR ''!'') (lastIndexOf truncated CHR ''?''))"

definition truncateTextForPolly :: "string \<Rightarrow> nat \<Rightarrow> string" where
  "truncateTextForPolly text maxLength =
     (if length text \<le> maxLength then text
      else
        let truncated = substring text 0 (int maxLength)
        in if gt_times_0_7 (lastSentenceEnd truncated) maxLength
           then substring truncated 0 (lastSentenceEnd truncated + 1)
           else
             let lastSpace = lastIndexOf truncated CHR '' ''
             in if 0 < lastSpace then substring truncated 0 lastSpace @ ''...''
                else truncated @ ''...'')"

text \<open>The default of the parameter \<open>maxLength\<close>, the only limit the program passes.\<close>

definition polly_limit :: nat where
  "polly_limit = 2500"

section \<open>More of the JavaScript standard library\<close>

definition endsWith :: "string \<Rightarrow> string \<Rightarrow> bool" where
  "endsWith s suffix \<longleftrightarrow>
     length suffix \<le> length s \<and> drop (length s - length suffix) s = suffix"

text \<open>\<open>String.prototype.trim\<close> on the code units a \<^typ>\<open>char\<close> can hold: tab, line feed,
  vertical tab, form feed, carriage return, space and no-break space.\<close>

definition isWhiteSpace :: "char \<Rightarrow> bool" where
  "isWhiteSpace c \<longleftrightarrow>
     c = CHR 0x09 \<or> c = CHR 0x0A \<or> c = CHR 0x0B \<or> c = CHR 0x0C \<or> c = CHR 0x0D
     \<or> c = CHR '' '' \<or> c = CHR 0xA0"

definition trim :: "string \<Rightarrow> string" where
  "trim s = rev (dropWhile isWhiteSpace (rev (dropWhile isWhiteSpace s)))"

text \<open>\<open>Array.prototype.join\<close>.\<close>

fun join :: "string \<Rightarrow> string list \<Rightarrow> string" where
  "join sep [] = []"
| "join sep [x] = x"
| "join sep (x # y # ys) = x @ sep @ join sep (y # ys)"

text \<open>The decimal rendering of a non-negative integer in a template literal
  (\<open>`${Date.now()}`\<close>).\<close>

definition digit :: "nat \<Rightarrow> char" where
  "digit d = ''0123456789'' ! d"

fun string_of_nat :: "nat \<Rightarrow> string" where
  "string_of_nat n =
     (if n < 10 then [digit n] else string_of_nat (n div 10) @ [digit (n mod 10)])"

declare string_of_nat.simps [simp del]

section \<open>The outside world\<close>

text \<open>
  The program talks to four services (S3, Transcribe, Watsonx, Polly), reads the clock and
  keeps audio files in the directory \<open>public/aud_op\<close>. A \<open>world\<close> is what the program
  can change: the requests sent so far, in order, the number of clock readings taken, the
  entries of \<open>public/aud_op\<close> in the order \<open>readdirSync\<close> lists them, and the objects it
  has put into S3. An \<open>env\<close> is how the outside answers: each field gives the outcome of
  one kind of request, a rejected promise being its error message. Console output is not
  modelled.
\<close>

datatype entry = File string | Directory

type_synonym directory = "(string \<times> entry) list"

datatype call =
    HeadObjectCommand string string
  | StartTranscriptionJobCommand string string string "string option"
  | GetTranscriptionJobCommand string
  | GetObjectCommand string string
  | PutObjectCommand string string string
  | GenerateText string
  | SynthesizeSpeechCommand string string string

datatype job_status = QUEUED | IN_PROGRESS | FAILED | COMPLETED string

record result_item =
  generated_text :: "string option"

record generation =
  gen_text :: "string option"

record result_body =
  results :: "result_item list option"
  generations :: "generation list option"

record response =
  result :: "result_body option"

record env =
  date_now :: "nat \<Rightarrow> nat"
  dirname :: string
  s3_head_object :: "string \<Rightarrow> string \<Rightarrow> string option"
  s3_get_transcripts :: "string \<Rightarrow> string \<Rightarrow> string + string list"
  s3_put_object :: "string \<Rightarrow> string \<Rightarrow> string \<Rightarrow> string option"
  transcribe_start :: "string \<Rightarrow> string \<Rightarrow> string option"
  transcribe_get :: "string \<Rightarrow> nat \<Rightarrow> string + job_status"
  data_access_role_arn :: "string option"
  watsonx_client :: bool
  watsonx_generateText :: "string \<Rightarrow> string + response option"
  polly_send :: "string \<Rightarrow> string \<Rightarrow> string \<Rightarrow> string + string"

record world =
  calls :: "call list"
  clock_reads :: nat
  aud_op :: directory
  s3_objects :: "string \<times> string \<Rightarrow> string option"

definition send :: "call \<Rightarrow> world \<Rightarrow> world" where
  "send c w = w\<lparr>calls := calls w @ [c]\<rparr>"

text \<open>\<open>Date.now()\<close>: the next reading of the clock.\<close>

definition Date_now :: "env \<Rightarrow> world \<Rightarrow> nat \<times> world" where
  "Date_now env w = (date_now env (clock_reads w), w\<lparr>clock_reads := Suc (clock_reads w)\<rparr>)"

text \<open>\<open>PutObjectCommand\<close>: the request is sent; unless S3 rejects it the object is stored.\<close>

definition putObject :: "env \<Rightarrow> string \<Rightarrow> string \<Rightarrow> string \<Rightarrow> world \<Rightarrow> (string + unit) \<times> world" where
  "putObject env bucket key body w =
     (let w' = send (PutObjectCommand bucket key body) w
      in case s3_put_object env bucket key body of
           Some e \<Rightarrow> (Inl e, w')
         | None \<Rightarrow> (Inr (), w'\<lparr>s3_objects := (s3_objects w')((bucket, key) \<mapsto> body)\<rparr>))"

subsection \<open>The file system calls of pol.js\<close>

text \<open>
  An entry of \<open>public/aud_op\<close> is a regular file with its bytes or a subdirectory.
  \<open>unlinkSync\<close> throws on a subdirectory and on a missing name (\<open>None\<close>);
  \<open>writeFileSync\<close> throws on a subdirectory, replaces a file and creates a missing one.
  A file name is one path component: \<open>path.join\<close> resolves the empty name and \<open>.\<close> to the
  directory itself, where \<open>writeFileSync\<close> throws; a name with a separator leaves the
  directory and is outside this model. The list keeps a new name at its end, and its order
  stands for the order in which the file system lists the entries, which Node leaves to
  the file system.
\<close>

definition readdirSync :: "directory \<Rightarrow> string list" where
  "readdirSync d = map fst d"

definition unlinkSync :: "string \<Rightarrow> directory \<Rightarrow> directory option" where
  "unlinkSync name d =
     (case map_of d name of
        Some (File b) \<Rightarrow> Some (AList.delete name d)
      | Some Directory \<Rightarrow> None
      | None \<Rightarrow> None)"

definition path_join :: "string \<Rightarrow> string \<Rightarrow> string" where
  "path_join a b = (if b = [] \<or> b = ''.'' then a else a @ ''/'' @ b)"

definition writeFileSync :: "string \<Rightarrow> string \<Rightarrow> string \<Rightarrow> directory \<Rightarrow> string + directory" where
  "writeFileSync path name b d =
     (if name = [] \<or> name = ''.''
      then Inl (''EISDIR: illegal operation on a directory, open '' @ [CHR 0x27] @ path @ [CHR 0x27])
      else
        (case map_of d name of
           Some Directory \<Rightarrow>
             Inl (''EISDIR: illegal operation on a directory, open '' @ [CHR 0x27] @ path @ [CHR 0x27])
         | _ \<Rightarrow> Inr (AList.update name (File b) d)))"

section \<open>pol.js: clearPreviousAudio and synthesizeSpeech\<close>

text \<open>The \<open>forEach\<close> of \<open>clearPreviousAudio\<close>: the first \<open>unlinkSync\<close> that throws ends the
  loop, and the \<open>catch\<close> around it keeps what was deleted before.\<close>

fun clear_each :: "string list \<Rightarrow> directory \<Rightarrow> directory" where
  "clear_each [] d = d"
| "clear_each (file # files) d =
     (if endsWith file ''.mp3''
      then (case unlinkSync file d of None \<Rightarrow> d | Some d' \<Rightarrow> clear_each files d')
      else clear_each files d)"

definition clearPreviousAudio :: "directory \<Rightarrow> directory" where
  "clearPreviousAudio d = clear_each (readdirSync d) d"

record options =
  opt_voiceId :: "string option"
  opt_outputFormat :: "string option"
  opt_outputFileName :: "string option"
  opt_bucketName :: "string option"

record config =
  voiceId :: string
  outputFormat :: string
  outputFileName :: string
  bucketName :: string

definition defaultOptions :: config where
  "defaultOptions =
     \<lparr>voiceId = ''Joanna'', outputFormat = ''mp3'', outputFileName = ''current_audio.mp3'',
      bucketName = ''mint-out''\<rparr>"

definition no_options :: options where
  "no_options =
     \<lparr>opt_voiceId = None, opt_outputFormat = None, opt_outputFileName = None,
      opt_bucketName = None\<rparr>"

text \<open>\<open>{ ...defaultOptions, ...options }\<close>\<close>

definition spread :: "config \<Rightarrow> options \<Rightarrow> config" where
  "spread d opts =
     \<lparr>voiceId = (case opt_voiceId opts of None \<Rightarrow> voiceId d | Some v \<Rightarrow> v),
      outputFormat = (case opt_outputFormat opts of None \<Rightarrow> outputFormat d | Some v \<Rightarrow> v),
      outputFileName = (case opt_outputFileName opts of None \<Rightarrow> outputFileName d | Some v \<Rightarrow> v),
      bucketName = (case opt_bucketName opts of None \<Rightarrow> bucketName d | Some v \<Rightarrow> v)\<rparr>"

datatype synthesis_result =
    success: SynthesisSuccess (localFileName: string) (localFilePath: string) (relativePath: string)
      (s3FileName: string) (s3Bucket: string) (s3Url: string) (message: string)
  | SynthesisFailure (error: string)

definition audioOutputDir :: "env \<Rightarrow> string" where
  "audioOutputDir env = path_join (dirname env) ''public/aud_op''"

definition synthesizeSpeech :: "env \<Rightarrow> string \<Rightarrow> options \<Rightarrow> world \<Rightarrow> synthesis_result \<times> world" where
  "synthesizeSpeech env textInput opts w =
     (let cfg = spread defaultOptions opts;
          processedText = truncateTextForPolly textInput polly_limit;
          w1 = w\<lparr>aud_op := clearPreviousAudio (aud_op w)\<rparr>;
          w2 = send (SynthesizeSpeechCommand (outputFormat cfg) processedText (voiceId cfg)) w1
      in case polly_send env (outputFormat cfg) processedText (voiceId cfg) of
           Inl e \<Rightarrow> (SynthesisFailure e, w2)
         | Inr audioBuffer \<Rightarrow>
             let localPath = path_join (audioOutputDir env) (outputFileName cfg)
             in case writeFileSync localPath (outputFileName cfg) audioBuffer (aud_op w2) of
                  Inl e \<Rightarrow> (SynthesisFailure e, w2)
                | Inr d \<Rightarrow>
                    let w3 = w2\<lparr>aud_op := d\<rparr>;
                        (now, w4) = Date_now env w3;
                        s3Name = ''polly-output-'' @ string_of_nat now @ ''.mp3''
                    in case putObject env (bucketName cfg) s3Name audioBuffer w4 of
                         (Inl e, w5) \<Rightarrow> (SynthesisFailure e, w5)
                       | (Inr u, w5) \<Rightarrow>
                           (SynthesisSuccess (outputFileName cfg) localPath
                              (''public/aud_op/'' @ outputFileName cfg) s3Name (bucketName cfg)
                              (''s3://'' @ bucketName cfg @ ''/'' @ s3Name)
                              ''Speech synthesized, saved locally to aud_op folder AND uploaded to S3 successfully'',
                            w5))"

section \<open>graniteLLM.js: generateTextWithGranite\<close>

text \<open>
  The answer of \<open>watsonxAI.generateText\<close> is \<open>None\<close> when it is \<open>null\<close> or \<open>undefined\<close>;
  \<open>result\<close> is \<open>None\<close> when the field is missing; \<open>results\<close> is \<open>Some\<close> exactly when
  \<open>Array.isArray\<close> holds of the field; \<open>generations\<close> is \<open>Some\<close> when the field is an array.
  \<open>response_results\<close> is the array that the first \<open>if\<close> tests,
  \<open>response_generations\<close> the one that the second tests, and \<open>read_response\<close> is the
  code after the \<open>await\<close>; calling \<open>trim\<close> on a missing \<open>generated_text\<close> throws a
  TypeError.
\<close>

definition response_results :: "response option \<Rightarrow> result_item list option" where
  "response_results r =
     (case r of
        None \<Rightarrow> None
      | Some resp \<Rightarrow> (case result resp of None \<Rightarrow> None | Some body \<Rightarrow> results body))"

definition response_generations :: "response option \<Rightarrow> generation list option" where
  "response_generations r =
     (case r of
        None \<Rightarrow> None
      | Some resp \<Rightarrow> (case result resp of None \<Rightarrow> None | Some body \<Rightarrow> generations body))"

definition read_response :: "response option \<Rightarrow> string + string" where
  "read_response r =
     (case response_results r of
        Some (item # items) \<Rightarrow>
          (case generated_text item of
             None \<Rightarrow> Inl ''Cannot read properties of undefined (reading 'trim')''
           | Some t \<Rightarrow> Inr (trim t))
      | _ \<Rightarrow>
          (case response_generations r of
             Some (g # gs) \<Rightarrow> Inr (trim (case gen_text g of None \<Rightarrow> [] | Some t \<Rightarrow> t))
           | _ \<Rightarrow> Inr ''No result field in response''))"

text \<open>The \<open>try\<close> block: \<open>Inl\<close> is the message of the error thrown inside it.\<close>

definition generate_try :: "env \<Rightarrow> string \<Rightarrow> world \<Rightarrow> (string + string) \<times> world" where
  "generate_try env inputText w =
     (if inputText = [] then (Inl ''Input text is required and must be a string'', w)
      else if \<not> watsonx_client env
      then (Inl ''Watsonx client not initialized. Ensure WATSONX_AI_APIKEY and WATSONX_AI_URL are set.'', w)
      else
        (case watsonx_generateText env inputText of
           Inl e \<Rightarrow> (Inl e, send (GenerateText inputText) w)
         | Inr r \<Rightarrow> (read_response r, send (GenerateText inputText) w)))"

definition generateTextWithGranite :: "env \<Rightarrow> string \<Rightarrow> world \<Rightarrow> (string + string) \<times> world" where
  "generateTextWithGranite env inputText w =
     (case generate_try env inputText w of
        (Inl e, w') \<Rightarrow> (Inl (''Watsonx Granite LLM error: '' @ e), w')
      | (Inr generated, w') \<Rightarrow> (Inr generated, w'))"

section \<open>transcribe.js, in its two versions\<close>

text \<open>
  The repository has two files that define \<open>startTranscription\<close>, \<open>waitForCompletion\<close>,
  \<open>getTranscriptText\<close> and \<open>transcribeAudio\<close>: \<open>transcribe.js\<close> and a second file
  (\<open>part_000\<close>). They differ in the bucket and in \<open>startTranscription\<close>; every function
  below takes the file it is read from.
\<close>

datatype source_file = transcribe_js | part_000

definition transcribe_bucketName :: "source_file \<Rightarrow> string" where
  "transcribe_bucketName f = (case f of transcribe_js \<Rightarrow> ''mint-bucket1'' | part_000 \<Rightarrow> ''mint-in'')"

text \<open>The regular expression \<open>/^s3:\/\/[^\/]+\/.+/\<close>: the scheme, a non-empty run of
  characters other than \<open>/\<close>, a \<open>/\<close>, and one character that is not a line terminator.\<close>

definition isLineTerminator :: "char \<Rightarrow> bool" where
  "isLineTerminator c \<longleftrightarrow> c = CHR 0x0A \<or> c = CHR 0x0D"

definition s3_uri_test :: "string \<Rightarrow> bool" where
  "s3_uri_test uri =
     (if take 5 uri = ''s3://''
      then
        let bucket = takeWhile (\<lambda>c. c \<noteq> CHR ''/'') (drop 5 uri)
        in if bucket = [] then False
           else (case drop (5 + length bucket) uri of
                   slash # c # cs \<Rightarrow> \<not> isLineTerminator c
                 | _ \<Rightarrow> False)
      else False)"

text \<open>\<open>process.env.TRANSCRIBE_DATA_ACCESS_ROLE_ARN\<close> where it is set and not empty.\<close>

definition role_arn :: "env \<Rightarrow> string option" where
  "role_arn env = (case data_access_role_arn env of Some (c # cs) \<Rightarrow> Some (c # cs) | _ \<Rightarrow> None)"

definition startJob :: "env \<Rightarrow> string \<Rightarrow> string \<Rightarrow> string \<Rightarrow> string option \<Rightarrow> world \<Rightarrow> (string + unit) \<times> world" where
  "startJob env jobName uri bucket role w =
     (let w' = send (StartTranscriptionJobCommand jobName uri bucket role) w
      in case transcribe_start env jobName uri of
           Some e \<Rightarrow> (Inl e, w')
         | None \<Rightarrow> (Inr (), w'))"

definition startTranscription :: "source_file \<Rightarrow> env \<Rightarrow> string \<Rightarrow> string \<Rightarrow> world \<Rightarrow> (string + unit) \<times> world" where
  "startTranscription f env jobName audioFile w =
     (let bucket = transcribe_bucketName f;
          s3Uri = ''s3://'' @ bucket @ ''/'' @ audioFile
      in case f of
           transcribe_js \<Rightarrow> startJob env jobName s3Uri bucket None w
         | part_000 \<Rightarrow>
             if s3Uri = [] \<or> \<not> s3_uri_test s3Uri
             then (Inl (''Invalid S3 URI constructed for Transcribe: '' @ s3Uri), w)
             else
               (case s3_head_object env bucket audioFile of
                  Some e \<Rightarrow>
                    (Inl (''S3 object not found or inaccessible: s3://'' @ bucket @ ''/'' @ audioFile
                          @ '' -- '' @ e),
                     send (HeadObjectCommand bucket audioFile) w)
                | None \<Rightarrow>
                    startJob env jobName s3Uri bucket (role_arn env)
                      (send (HeadObjectCommand bucket audioFile) w)))"

text \<open>The polling loop \<open>while (true)\<close>: the \<open>n\<close>-th request for the job's status. It has no
  bound, so it is a partial function: \<open>None\<close> is the loop that never ends.\<close>

partial_function (option) waitForCompletion ::
  "env \<Rightarrow> string \<Rightarrow> nat \<Rightarrow> world \<Rightarrow> ((string + string) \<times> world) option" where
  "waitForCompletion env jobName n w =
     (case transcribe_get env jobName n of
        Inl e \<Rightarrow> Some (Inl e, send (GetTranscriptionJobCommand jobName) w)
      | Inr (COMPLETED uri) \<Rightarrow> Some (Inr uri, send (GetTranscriptionJobCommand jobName) w)
      | Inr FAILED \<Rightarrow>
          Some (Inl ''Transcription job failed.'', send (GetTranscriptionJobCommand jobName) w)
      | Inr QUEUED \<Rightarrow>
          waitForCompletion env jobName (Suc n) (send (GetTranscriptionJobCommand jobName) w)
      | Inr IN_PROGRESS \<Rightarrow>
          waitForCompletion env jobName (Suc n) (send (GetTranscriptionJobCommand jobName) w))"

text \<open>\<open>s3_get_transcripts\<close> stands for fetching \<open><jobName>.json\<close>, reading the stream,
  \<open>JSON.parse\<close> and \<open>json.results.transcripts.map(t => t.transcript)\<close>: the transcripts in
  order, or the message of whichever of these steps threw.\<close>

definition getTranscriptText :: "source_file \<Rightarrow> env \<Rightarrow> string \<Rightarrow> world \<Rightarrow> (string + string) \<times> world" where
  "getTranscriptText f env jobName w =
     (let bucket = transcribe_bucketName f;
          jsonKey = jobName @ ''.json'';
          w1 = send (GetObjectCommand bucket jsonKey) w
      in case s3_get_transcripts env bucket jsonKey of
           Inl e \<Rightarrow> (Inl e, w1)
         | Inr transcripts \<Rightarrow>
             let transcript = join [CHR 0x0A] transcripts;
                 textKey = jobName @ ''.txt''
             in case putObject env bucket textKey transcript w1 of
                  (Inl e, w2) \<Rightarrow> (Inl e, w2)
                | (Inr u, w2) \<Rightarrow> (Inr transcript, w2))"

definition transcribeAudio :: "source_file \<Rightarrow> env \<Rightarrow> string \<Rightarrow> world \<Rightarrow> ((string + string) \<times> world) option" where
  "transcribeAudio f env mp3FileName w =
     (let (now, w0) = Date_now env w;
          jobName = ''MyTranscriptionJob-'' @ string_of_nat now
      in case startTranscription f env jobName mp3FileName w0 of
           (Inl e, w1) \<Rightarrow> Some (Inl e, w1)
         | (Inr u, w1) \<Rightarrow>
             (case waitForCompletion env jobName 0 w1 of
                None \<Rightarrow> None
              | Some (Inl e, w2) \<Rightarrow> Some (Inl e, w2)
              | Some (Inr transcriptUri, w2) \<Rightarrow> Some (getTranscriptText f env jobName w2)))"

section \<open>help.js: processAudioWithAI\<close>

datatype pipeline_result =
    PipelineSuccess (transcribedText: string) (aiResponse: string) (audioFile: string)
      (pipeline_message: string)
  | PipelineFailure (pipeline_error: string) (step: string)

text \<open>\<open>f\<close> is the file that \<open>require("./transcribe.js")\<close> loads.\<close>

definition processAudioWithAI :: "source_file \<Rightarrow> env \<Rightarrow> string \<Rightarrow> world \<Rightarrow> (pipeline_result \<times> world) option" where
  "processAudioWithAI f env fileName w =
     (case transcribeAudio f env fileName w of
        None \<Rightarrow> None
      | Some (Inl e, w1) \<Rightarrow> Some (PipelineFailure e ''AI Pipeline'', w1)
      | Some (Inr transcribed, w1) \<Rightarrow>
          (case generateTextWithGranite env transcribed w1 of
             (Inl e, w2) \<Rightarrow> Some (PipelineFailure e ''AI Pipeline'', w2)
           | (Inr ai, w2) \<Rightarrow>
               (case synthesizeSpeech env ai no_options w2 of
                  (SynthesisFailure e, w3) \<Rightarrow>
                    Some (PipelineFailure (''Speech synthesis failed: '' @ e) ''AI Pipeline'', w3)
                | (speechResult, w3) \<Rightarrow>
                    Some (PipelineSuccess transcribed ai (relativePath speechResult)
                            ''AI pipeline completed successfully'', w3))))"

section \<open>Vocabulary of the claims\<close>

text \<open>
  \<open>generation_or_synthesis\<close> holds of the requests to Watsonx and to Polly;
  \<open>quiet w w'\<close> says that no such request was sent between the worlds \<open>w\<close> and \<open>w'\<close>;
  \<open>polls jobName k\<close> sends \<open>k\<close> requests for the status of a job.
\<close>

fun generation_or_synthesis :: "call \<Rightarrow> bool" where
  "generation_or_synthesis (GenerateText prompt) = True"
| "generation_or_synthesis (SynthesizeSpeechCommand fmt txt voice) = True"
| "generation_or_synthesis c = False"

fun polls :: "string \<Rightarrow> nat \<Rightarrow> world \<Rightarrow> world" where
  "polls jobName 0 w = w"
| "polls jobName (Suc k) w = polls jobName k (send (GetTranscriptionJobCommand jobName) w)"

definition quiet :: "world \<Rightarrow> world \<Rightarrow> bool" where
  "quiet w w' \<longleftrightarrow>
     filter generation_or_synthesis (calls w') = filter generation_or_synthesis (calls w)"

section \<open>Test doubles\<close>

text \<open>
  A concrete outside world for running the program: every service answers, the clock
  advances by 250 ms between readings, Transcribe reports the job in progress twice and
  then completed, Watsonx answers with one result, and Polly returns the text behind an
  \<open>ID3:\<close> tag as its audio. \<open>world1\<close> has an old reply and a file that is not audio in
  \<open>public/aud_op\<close>; \<open>world2\<close> is \<open>world1\<close> after one synthesis of \<open>First reply.\<close>;
  \<open>clock_set_back\<close> is a wall clock that an adjustment sets back by 250 ms between its
  first two readings, so that both read the same millisecond; \<open>on_the_mark\<close> is a text of
  94 characters whose only full stop is at index 63, which is 70% of 90. In \<open>job_fails\<close>
  the transcription job ends as failed, in \<open>generation_down\<close> Watsonx rejects the request,
  in \<open>polly_down\<close> Polly does, and in \<open>object_missing\<close> S3 answers every \<open>HeadObject\<close> with
  an error.
\<close>

definition env0 :: env where
  "env0 =
     \<lparr>date_now = (\<lambda>n. 1763792857376 + 250 * n), dirname = ''/srv/app'',
      s3_head_object = (\<lambda>bucket key. None),
      s3_get_transcripts = (\<lambda>bucket key. Inr [''I feel anxious today'']),
      s3_put_object = (\<lambda>bucket key body. None),
      transcribe_start = (\<lambda>jobName uri. None),
      transcribe_get = (\<lambda>jobName n. if n < 2 then Inr IN_PROGRESS else Inr (COMPLETED ''https://s3/transcript.json'')),
      data_access_role_arn = None,
      watsonx_client = True,
      watsonx_generateText = (\<lambda>prompt. Inr (Some \<lparr>result = Some \<lparr>results = Some [\<lparr>generated_text = Some '' Take a slow breath. ''\<rparr>], generations = None\<rparr>\<rparr>)),
      polly_send = (\<lambda>fmt txt voice. Inr (''ID3:'' @ txt))\<rparr>"

definition world0 :: world where
  "world0 = \<lparr>calls = [], clock_reads = 0, aud_op = [], s3_objects = (\<lambda>k. None)\<rparr>"

definition world1 :: world where
  "world1 = world0\<lparr>aud_op := [(''notes.txt'', File ''call back''), (''old_reply.mp3'', File ''ID3:old'')]\<rparr>"

definition world2 :: world where
  "world2 =
     \<lparr>calls = [SynthesizeSpeechCommand ''mp3'' ''First reply.'' ''Joanna'',
                PutObjectCommand ''mint-out'' ''polly-output-1763792857376.mp3'' ''ID3:First reply.''],
       clock_reads = 1,
       aud_op = [(''notes.txt'', File ''call back''), (''current_audio.mp3'', File ''ID3:First reply.'')],
       s3_objects = (\<lambda>k. None)((''mint-out'', ''polly-output-1763792857376.mp3'') \<mapsto> ''ID3:First reply.'')\<rparr>"

definition clock_set_back :: env where
  "clock_set_back =
     env0\<lparr>date_now := (\<lambda>n. if n = 0 then 1763792857376 else 1763792857376 + 250 * (n - 1))\<rparr>"


definition job_fails :: env where
  "job_fails = env0\<lparr>transcribe_get := (\<lambda>jobName n. if n < 2 then Inr IN_PROGRESS else Inr FAILED)\<rparr>"

definition generation_down :: env where
  "generation_down = env0\<lparr>watsonx_generateText := (\<lambda>prompt. Inl ''503 Service Unavailable'')\<rparr>"

definition polly_down :: env where
  "polly_down = env0\<lparr>polly_send := (\<lambda>fmt txt voice. Inl ''Rate exceeded'')\<rparr>"

definition object_missing :: env where
  "object_missing = env0\<lparr>s3_head_object := (\<lambda>bucket key. Some ''NotFound'')\<rparr>"

section \<open>Facts about the string helpers\<close>

lemma substring_0: "substring s 0 b = take (nat b) s"
  by (simp add: substring_def clamp_index_def Let_def min_def)

lemma lastIndexFrom_bounds: "- 1 \<le> lastIndexFrom s c k \<and> lastIndexFrom s c k < int k"
  by (induction k) auto

lemma lastIndexFrom_absent: "(\<forall>j<k. s ! j \<noteq> c) \<Longrightarrow> lastIndexFrom s c k = - 1"
  by (induction k) auto

lemma lastIndexFrom_hit:
  "0 \<le> lastIndexFrom s c k \<Longrightarrow> s ! nat (lastIndexFrom s c k) = c"
  by (induction k) auto

lemma lastIndexFrom_last:
  "int j < int k \<Longrightarrow> lastIndexFrom s c k < int j \<Longrightarrow> s ! j \<noteq> c"
proof (induction k)
  case 0
  then show ?case by simp
next
  case (Suc k)
  show ?case
  proof (cases "s ! k = c")
    case True
    with Suc.prems show ?thesis by simp
  next
    case False
    with Suc show ?thesis by (cases "j = k") auto
  qed
qed

lemma lastIndexOf_bounds: "- 1 \<le> lastIndexOf s c \<and> lastIndexOf s c < int (length s)"
  unfolding lastIndexOf_def by (rule lastIndexFrom_bounds)

lemma lastIndexOf_absent: "c \<notin> set s \<Longrightarrow> lastIndexOf s c = - 1"
  unfolding lastIndexOf_def by (rule lastIndexFrom_absent) auto

lemma lastIndexOf_hit: "0 \<le> lastIndexOf s c \<Longrightarrow> s ! nat (lastIndexOf s c) = c"
  unfolding lastIndexOf_def by (rule lastIndexFrom_hit)

lemma lastIndexOf_last: "j < length s \<Longrightarrow> lastIndexOf s c < int j \<Longrightarrow> s ! j \<noteq> c"
  unfolding lastIndexOf_def by (rule lastIndexFrom_last) auto


lemma gt_times_0_7_mono: "gt_times_0_7 l m \<Longrightarrow> l \<le> l' \<Longrightarrow> gt_times_0_7 l' m"
proof -
  assume a: "gt_times_0_7 l m" and b: "l \<le> l'"
  from b have "l * 2 ^ 53 \<le> l' * 2 ^ 53" by simp
  with a show ?thesis unfolding gt_times_0_7_def by linarith
qed






lemma bit_length_numeral: "bit_length (numeral k) = Suc (bit_length (numeral k div 2))"
  by (subst bit_length.simps) simp

lemma bit_length_0: "bit_length 0 = 0"
  by (simp add: bit_length.simps)

lemma bit_length_1: "bit_length (Suc 0) = 1"
  by (simp add: bit_length.simps)

lemmas round53_eval = times_0_7_def round53_def bit_length_numeral bit_length_0 bit_length_1 Let_def

lemma times_0_7_reference: "times_0_7 2500 = 1750 * 2 ^ 53"
  by (simp add: round53_eval)

lemma times_0_7_ten: "times_0_7 10 = 7 * 2 ^ 53"
  by (simp add: round53_eval)

lemma gt_times_0_7_reference: "gt_times_0_7 l polly_limit \<longleftrightarrow> 1750 < l"
  unfolding gt_times_0_7_def polly_limit_def times_0_7_reference by simp

lemma gt_times_0_7_ten: "gt_times_0_7 l 10 \<longleftrightarrow> 7 < l"
  unfolding gt_times_0_7_def times_0_7_ten by simp

lemma lastIndexFrom_numeral:
  "lastIndexFrom s c (numeral k) =
     (if s ! pred_numeral k = c then int (pred_numeral k) else lastIndexFrom s c (pred_numeral k))"
  by (simp add: numeral_eq_Suc)

lemma truncate_long:
  "maxLength < length text \<Longrightarrow>
   truncateTextForPolly text maxLength =
     (let truncated = take maxLength text
      in if gt_times_0_7 (lastSentenceEnd truncated) maxLength
         then take (nat (lastSentenceEnd truncated + 1)) truncated
         else if 0 < lastIndexOf truncated CHR '' ''
              then take (nat (lastIndexOf truncated CHR '' '')) truncated @ ''...''
              else truncated @ ''...'')"
  by (simp add: truncateTextForPolly_def substring_0 Let_def lastSentenceEnd_def)

lemma lastSentenceEnd_bounds: "- 1 \<le> lastSentenceEnd t \<and> lastSentenceEnd t < int (length t)"
  using lastIndexOf_bounds [of t "CHR ''.''"] lastIndexOf_bounds [of t "CHR ''!''"]
    lastIndexOf_bounds [of t "CHR ''?''"]
  by (simp add: lastSentenceEnd_def max_def)

lemma lastSentenceEnd_hit:
  "0 \<le> lastSentenceEnd t \<Longrightarrow> t ! nat (lastSentenceEnd t) \<in> {CHR ''.'', CHR ''!'', CHR ''?''}"
  using lastIndexOf_hit [of t "CHR ''.''"] lastIndexOf_hit [of t "CHR ''!''"]
    lastIndexOf_hit [of t "CHR ''?''"]
  by (auto simp: lastSentenceEnd_def max_def split: if_splits)

lemma lastSentenceEnd_last:
  "j < length t \<Longrightarrow> lastSentenceEnd t < int j \<Longrightarrow> t ! j \<notin> {CHR ''.'', CHR ''!'', CHR ''?''}"
  using lastIndexOf_last [of j t "CHR ''.''"] lastIndexOf_last [of j t "CHR ''!''"]
    lastIndexOf_last [of j t "CHR ''?''"]
  by (auto simp: lastSentenceEnd_def)

lemma lastSentenceEnd_ge:
  "j < length t \<Longrightarrow> t ! j \<in> {CHR ''.'', CHR ''!'', CHR ''?''} \<Longrightarrow> int j \<le> lastSentenceEnd t"
  using lastSentenceEnd_last [of j t] by force

lemma truncate_short: "length text \<le> maxLength \<Longrightarrow> truncateTextForPolly text maxLength = text"
  by (simp add: truncateTextForPolly_def)













section \<open>The truncation helper\<close>

text \<open>
  Claim C8. For every string shorter than the limit, \<open>truncateTextForPolly\<close> is the
  identity: it returns its input unchanged.
\<close>

theorem truncate_identity:
  "length text < maxLength \<Longrightarrow> truncateTextForPolly text maxLength = text"
  by (simp add: truncateTextForPolly_def)

text \<open>A short reply under the reference limit of 2500 comes back as it is.\<close>

theorem truncate_identity_witness:
  "length ''Take a slow breath.'' < polly_limit \<and>
   truncateTextForPolly ''Take a slow breath.'' polly_limit = ''Take a slow breath.''"
proof -
  have h: "length ''Take a slow breath.'' < polly_limit" by (simp add: polly_limit_def)
  from truncate_identity [OF h] h show ?thesis by simp
qed

text \<open>
  Claim C1, as amended. For every input string and every max length, the string that
  \<open>truncateTextForPolly\<close> returns is at most three characters longer than the max length:
  the two word-boundary branches append the marker \<open>...\<close> after cutting. It is no longer
  than the max length when the input is not, and when the cut is at a sentence end.
\<close>

theorem truncate_length_bound:
  "length (truncateTextForPolly text maxLength) \<le> maxLength + 3
   \<and> (length text \<le> maxLength \<or> gt_times_0_7 (lastSentenceEnd (take maxLength text)) maxLength
        \<longrightarrow> length (truncateTextForPolly text maxLength) \<le> maxLength)"
proof (cases "length text \<le> maxLength")
  case True
  then show ?thesis by (simp add: truncateTextForPolly_def)
next
  case False
  then have long: "maxLength < length text" by simp
  have "lastSentenceEnd (take maxLength text) < int maxLength"
    using lastSentenceEnd_bounds [of "take maxLength text"] long by simp
  moreover have "lastIndexOf (take maxLength text) CHR '' '' < int maxLength"
    using lastIndexOf_bounds [of "take maxLength text" "CHR '' ''"] long by simp
  ultimately show ?thesis
    using long by (auto simp: truncate_long Let_def)
qed

text \<open>
  Claim C1, as stated (the result is never longer than the max length), fails at the
  reference limit: 2501 letters without a space or a sentence end come back as 2500 letters
  and the marker, 2503 characters.
\<close>

theorem truncate_exceeds_limit:
  "\<not> length (truncateTextForPolly (replicate 2501 CHR ''a'') polly_limit) \<le> polly_limit"
proof -
  let ?t = "replicate 2501 CHR ''a''"
  have tk: "take polly_limit ?t = replicate 2500 CHR ''a''" by (simp add: polly_limit_def)
  have "lastSentenceEnd (replicate 2500 CHR ''a'') = - 1"
    by (simp add: lastSentenceEnd_def lastIndexOf_absent)
  then have no_end: "\<not> gt_times_0_7 (lastSentenceEnd (replicate 2500 CHR ''a'')) polly_limit"
    by (simp add: gt_times_0_7_reference)
  have no_space: "lastIndexOf (replicate 2500 CHR ''a'') CHR '' '' = - 1"
    by (simp add: lastIndexOf_absent)
  have long: "polly_limit < length ?t" by (simp add: polly_limit_def)
  have "truncateTextForPolly ?t polly_limit = replicate 2500 CHR ''a'' @ ''...''"
    unfolding truncate_long [OF long] tk Let_def using no_end no_space by simp
  then show ?thesis by (simp add: polly_limit_def)
qed

text \<open>The two bounds at the limit 10: a cut at a space, and a cut at a full stop.\<close>

theorem truncate_length_bound_witness:
  "length (truncateTextForPolly ''Stay calm and breathe'' 10) \<le> 10 + 3
   \<and> length (truncateTextForPolly ''Stay calm. Breathe slowly'' 10) \<le> 10"
proof -
  have "lastSentenceEnd (take 10 ''Stay calm. Breathe slowly'') = 9"
    by (simp add: lastSentenceEnd_def lastIndexOf_def lastIndexFrom_numeral)
  then have "gt_times_0_7 (lastSentenceEnd (take 10 ''Stay calm. Breathe slowly'')) 10"
    by (simp add: gt_times_0_7_ten)
  with truncate_length_bound [of "''Stay calm and breathe''" 10]
    truncate_length_bound [of "''Stay calm. Breathe slowly''" 10]
  show ?thesis by blast
qed




text \<open>
  Claim C6. A string longer than the limit with a sentence terminator at an index \<open>i\<close> of
  the limit window past the 70% mark comes back as the prefix that ends at the last
  terminator \<open>k\<close> of the window, the terminator included, and the result is no longer than
  the limit.
\<close>

theorem truncate_at_sentence_end:
  assumes "maxLength < length text"
    and "i < maxLength"
    and "text ! i \<in> {CHR ''.'', CHR ''!'', CHR ''?''}"
    and "gt_times_0_7 (int i) maxLength"
  shows "\<exists>k. i \<le> k \<and> k < maxLength \<and> text ! k \<in> {CHR ''.'', CHR ''!'', CHR ''?''}
           \<and> (\<forall>j. k < j \<and> j < maxLength \<longrightarrow> text ! j \<notin> {CHR ''.'', CHR ''!'', CHR ''?''})
           \<and> truncateTextForPolly text maxLength = take (Suc k) text
           \<and> length (truncateTextForPolly text maxLength) \<le> maxLength"
proof -
  let ?t = "take maxLength text"
  have len: "length ?t = maxLength" using assms(1) by simp
  have "?t ! i \<in> {CHR ''.'', CHR ''!'', CHR ''?''}" using assms(2,3) by simp
  then have ge: "int i \<le> lastSentenceEnd ?t" using lastSentenceEnd_ge [of i ?t] assms(2) len by simp
  define k where "k = nat (lastSentenceEnd ?t)"
  have k: "int k = lastSentenceEnd ?t" "i \<le> k" "k < maxLength"
    using ge lastSentenceEnd_bounds [of ?t] len by (simp_all add: k_def)
  have pos: "0 \<le> lastSentenceEnd ?t" using ge by simp
  have hit: "text ! k \<in> {CHR ''.'', CHR ''!'', CHR ''?''}"
    using lastSentenceEnd_hit [OF pos] k(3) by (simp add: k_def)
  have last: "text ! j \<notin> {CHR ''.'', CHR ''!'', CHR ''?''}" if "k < j" "j < maxLength" for j
  proof -
    have "lastSentenceEnd ?t < int j" using that(1) k(1) by simp
    from lastSentenceEnd_last [OF _ this] that(2) len show ?thesis by simp
  qed
  have past: "gt_times_0_7 (lastSentenceEnd ?t) maxLength"
    using gt_times_0_7_mono [OF assms(4) ge] .
  have "nat (lastSentenceEnd ?t + 1) = Suc k" using pos by (simp add: k_def)
  then have res: "truncateTextForPolly text maxLength = take (Suc k) text"
    using assms(1) past k(3) by (simp add: truncate_long Let_def min_def)
  have "length (take (Suc k) text) \<le> maxLength" using k(3) assms(1) by simp
  with res hit last k show ?thesis by metis
qed

text \<open>Claim C6 at the limit 10: the full stop at index 9 is past the mark.\<close>

theorem truncate_at_sentence_end_witness:
  "10 < length ''Stay calm. Breathe slowly'' \<and> (9::nat) < 10
   \<and> ''Stay calm. Breathe slowly'' ! 9 \<in> {CHR ''.'', CHR ''!'', CHR ''?''}
   \<and> gt_times_0_7 (int 9) 10
   \<and> truncateTextForPolly ''Stay calm. Breathe slowly'' 10 = ''Stay calm.''"
proof -
  let ?s = "''Stay calm. Breathe slowly''"
  have h1: "10 < length ?s" by simp
  have h2: "(9::nat) < 10" by simp
  have h3: "?s ! 9 \<in> {CHR ''.'', CHR ''!'', CHR ''?''}" by simp
  have h4: "gt_times_0_7 (int 9) 10" by (simp add: gt_times_0_7_ten)
  from truncate_at_sentence_end [OF h1 h2 h3 h4]
  obtain k where k: "9 \<le> k" "k < 10" "truncateTextForPolly ?s 10 = take (Suc k) ?s" by blast
  then have "k = 9" by simp
  with k(3) have "truncateTextForPolly ?s 10 = ''Stay calm.''" by simp
  with h1 h2 h3 h4 show ?thesis by blast
qed

section \<open>The generation stage\<close>

text \<open>
  Claim C10. When the generation service answers without raising and its answer holds
  neither a \<open>results\<close> array with at least one element nor a \<open>generations\<close> field,
  \<open>generateTextWithGranite\<close> does not throw: it returns the literal string
  \<open>No result field in response\<close> as if it were generated text.
\<close>

theorem granite_no_result_field:
  assumes "inputText \<noteq> []" and "watsonx_client env"
    and "watsonx_generateText env inputText = Inr r"
    and "response_results r = None \<or> response_results r = Some []"
    and "response_generations r = None"
  shows "generateTextWithGranite env inputText w =
           (Inr ''No result field in response'', send (GenerateText inputText) w)"
proof -
  have "read_response r = Inr ''No result field in response''"
    using assms(4,5) by (auto simp: read_response_def)
  then show ?thesis
    using assms(1,2,3) by (simp add: generateTextWithGranite_def generate_try_def)
qed

text \<open>Claim C10 at an answer whose \<open>results\<close> array is empty.\<close>

theorem granite_no_result_field_witness:
  "generateTextWithGranite (env0\<lparr>watsonx_generateText := (\<lambda>prompt. Inr (Some \<lparr>result = Some \<lparr>results = Some [], generations = None\<rparr>\<rparr>))\<rparr>)
     ''I feel anxious today'' world0 =
   (Inr ''No result field in response'', send (GenerateText ''I feel anxious today'') world0)"
proof -
  let ?r = "Some \<lparr>result = Some \<lparr>results = Some [], generations = None\<rparr>\<rparr>"
  let ?env = "env0\<lparr>watsonx_generateText := (\<lambda>prompt. Inr ?r)\<rparr>"
  have h1: "''I feel anxious today'' \<noteq> []" by simp
  have h2: "watsonx_client ?env" by (simp add: env0_def)
  have h3: "watsonx_generateText ?env ''I feel anxious today'' = Inr ?r" by simp
  have h4: "response_results ?r = None \<or> response_results ?r = Some []"
    by (simp add: response_results_def)
  have h5: "response_generations ?r = None" by (simp add: response_generations_def)
  from granite_no_result_field [OF h1 h2 h3 h4 h5] show ?thesis .
qed

section \<open>The synthesis stage\<close>

subsection \<open>The directory of local audio\<close>

lemma clear_each_distinct:
  "distinct (map fst d) \<Longrightarrow> distinct (map fst (clear_each files d))"
proof (induction files arbitrary: d)
  case Nil
  then show ?case by simp
next
  case (Cons name names)
  then show ?case
    by (auto simp: unlinkSync_def AList.distinct_delete split: option.splits entry.splits)
qed

lemma clearPreviousAudio_distinct:
  "distinct (map fst d) \<Longrightarrow> distinct (map fst (clearPreviousAudio d))"
  unfolding clearPreviousAudio_def by (rule clear_each_distinct)

lemma writeFileSync_ok:
  "writeFileSync path name b d = Inr d' \<Longrightarrow> d' = AList.update name (File b) d"
  by (auto simp: writeFileSync_def split: if_splits option.splits entry.splits)

lemma one_entry:
  "distinct (map fst d) \<Longrightarrow> map_of d k = Some v \<Longrightarrow> filter (\<lambda>p. fst p = k) d = [(k, v)]"
proof (induction d)
  case Nil
  then show ?case by simp
next
  case (Cons p d)
  show ?case
  proof (cases "fst p = k")
    case True
    with Cons.prems have "k \<notin> fst ` set d" "p = (k, v)" by (auto simp: prod_eq_iff)
    then have "filter (\<lambda>p. fst p = k) d = []" by (auto simp: filter_empty_conv)
    with True \<open>p = (k, v)\<close> show ?thesis by simp
  next
    case False
    with Cons show ?thesis by simp
  qed
qed

text \<open>What a successful call of \<open>synthesizeSpeech\<close> leaves behind.\<close>

lemma synthesizeSpeech_success:
  assumes "synthesizeSpeech env textInput opts w = (r, w')" and "success r"
  shows "\<exists>b. polly_send env (outputFormat (spread defaultOptions opts))
               (truncateTextForPolly textInput polly_limit) (voiceId (spread defaultOptions opts)) = Inr b
           \<and> aud_op w' = AList.update (outputFileName (spread defaultOptions opts)) (File b)
                            (clearPreviousAudio (aud_op w))
           \<and> s3FileName r = ''polly-output-'' @ string_of_nat (date_now env (clock_reads w)) @ ''.mp3''
           \<and> s3Bucket r = bucketName (spread defaultOptions opts)
           \<and> clock_reads w' = Suc (clock_reads w)
           \<and> s3_objects w' = (s3_objects w)((s3Bucket r, s3FileName r) \<mapsto> b)"
  using assms
  by (auto simp: synthesizeSpeech_def Let_def Date_now_def putObject_def send_def
      split: sum.splits option.splits prod.splits dest!: writeFileSync_ok)

subsection \<open>The decimal rendering of a timestamp is injective\<close>

lemma digit_inj: "a < 10 \<Longrightarrow> b < 10 \<Longrightarrow> digit a = digit b \<Longrightarrow> a = b"
proof -
  assume a: "a < 10" and b: "b < 10" and e: "digit a = digit b"
  have cases: "n < 10 \<Longrightarrow> n \<in> {0, 1, 2, 3, 4, 5, 6, 7, 8, 9}" for n :: nat by auto
  from cases [OF a] cases [OF b] e show ?thesis
    by (auto simp: digit_def)
qed

lemma string_of_nat_nonempty: "string_of_nat n \<noteq> []"
  by (subst string_of_nat.simps) simp

lemma string_of_nat_inj: "string_of_nat a = string_of_nat b \<Longrightarrow> a = b"
proof (induction a arbitrary: b rule: string_of_nat.induct)
  case (1 n)
  show ?case
  proof (cases "n < 10")
    case small: True
    show ?thesis
    proof (cases "b < 10")
      case True
      with small "1.prems" show ?thesis
        by (simp add: string_of_nat.simps [of n] string_of_nat.simps [of b] digit_inj)
    next
      case False
      with small "1.prems" show ?thesis
        using string_of_nat_nonempty [of "b div 10"]
        by (simp add: string_of_nat.simps [of n] string_of_nat.simps [of b])
    qed
  next
    case big: False
    show ?thesis
    proof (cases "b < 10")
      case True
      with big "1.prems" show ?thesis
        using string_of_nat_nonempty [of "n div 10"]
        by (simp add: string_of_nat.simps [of n] string_of_nat.simps [of b])
    next
      case False
      with big "1.prems" have eq: "string_of_nat (n div 10) = string_of_nat (b div 10)"
        and d: "digit (n mod 10) = digit (b mod 10)"
        by (simp_all add: string_of_nat.simps [of n] string_of_nat.simps [of b])
      from "1.IH" [OF big eq] have "n div 10 = b div 10" .
      moreover from d have "n mod 10 = b mod 10" by (intro digit_inj) simp_all
      ultimately show ?thesis by (metis div_mult_mod_eq)
    qed
  qed
qed

lemma s3_key_inj:
  "''polly-output-'' @ string_of_nat a @ ''.mp3'' = ''polly-output-'' @ string_of_nat b @ ''.mp3''
     \<longleftrightarrow> a = b"
  using string_of_nat_inj [of a b] by auto

text \<open>
  Claim C9. When Polly has answered and the local write has succeeded, a failing S3 upload
  makes \<open>synthesizeSpeech\<close> report the failure with the message of S3, and the local write
  is not rolled back: the local file holds the newly synthesized bytes. Nothing is stored
  in S3.
\<close>

theorem storage_failure_keeps_local_write:
  assumes "cfg = spread defaultOptions opts"
    and "polly_send env (outputFormat cfg) (truncateTextForPolly textInput polly_limit) (voiceId cfg)
           = Inr audioBuffer"
    and "writeFileSync (path_join (audioOutputDir env) (outputFileName cfg)) (outputFileName cfg)
           audioBuffer (clearPreviousAudio (aud_op w)) = Inr d"
    and "s3_put_object env (bucketName cfg)
           (''polly-output-'' @ string_of_nat (date_now env (clock_reads w)) @ ''.mp3'') audioBuffer
           = Some e"
    and "synthesizeSpeech env textInput opts w = (r, w')"
  shows "r = SynthesisFailure e \<and> map_of (aud_op w') (outputFileName cfg) = Some (File audioBuffer)
           \<and> s3_objects w' = s3_objects w"
proof -
  from assms(3) have d: "d = AList.update (outputFileName cfg) (File audioBuffer) (clearPreviousAudio (aud_op w))"
    by (rule writeFileSync_ok)
  have "synthesizeSpeech env textInput opts w =
          (SynthesisFailure e,
           send (PutObjectCommand (bucketName cfg)
                   (''polly-output-'' @ string_of_nat (date_now env (clock_reads w)) @ ''.mp3'') audioBuffer)
             ((send (SynthesizeSpeechCommand (outputFormat cfg) (truncateTextForPolly textInput polly_limit) (voiceId cfg))
                 (w\<lparr>aud_op := clearPreviousAudio (aud_op w)\<rparr>))
              \<lparr>aud_op := d, clock_reads := Suc (clock_reads w)\<rparr>))"
    using assms(2,3,4) unfolding assms(1)
    by (simp add: synthesizeSpeech_def Let_def Date_now_def putObject_def send_def)
  with assms(5) have "r = SynthesisFailure e" and "aud_op w' = d" and "s3_objects w' = s3_objects w"
    by (auto simp: send_def)
  then show ?thesis by (simp add: d AList.update_conv')
qed

text \<open>Claim C9 with an S3 that answers \<open>Access Denied\<close>, over an older local file.\<close>

theorem storage_failure_keeps_local_write_witness:
  "fst (synthesizeSpeech (env0\<lparr>s3_put_object := (\<lambda>bucket key body. Some ''Access Denied'')\<rparr>)
      ''Take a slow breath.'' no_options (world0\<lparr>aud_op := [(''current_audio.mp3'', File ''ID3:old'')]\<rparr>))
     = SynthesisFailure ''Access Denied''
   \<and> map_of (aud_op (snd (synthesizeSpeech (env0\<lparr>s3_put_object := (\<lambda>bucket key body. Some ''Access Denied'')\<rparr>)
      ''Take a slow breath.'' no_options (world0\<lparr>aud_op := [(''current_audio.mp3'', File ''ID3:old'')]\<rparr>))))
      ''current_audio.mp3'' = Some (File ''ID3:Take a slow breath.'')"
proof -
  let ?env = "env0\<lparr>s3_put_object := (\<lambda>bucket key body. Some ''Access Denied'')\<rparr>"
  let ?w = "world0\<lparr>aud_op := [(''current_audio.mp3'', File ''ID3:old'')]\<rparr>"
  let ?cfg = "spread defaultOptions no_options"
  let ?b = "''ID3:Take a slow breath.''"
  obtain r w' where run: "synthesizeSpeech ?env ''Take a slow breath.'' no_options ?w = (r, w')"
    by (cases "synthesizeSpeech ?env ''Take a slow breath.'' no_options ?w")
  have tr: "truncateTextForPolly ''Take a slow breath.'' polly_limit = ''Take a slow breath.''"
    by (simp add: truncate_short polly_limit_def)
  have h2: "polly_send ?env (outputFormat ?cfg) (truncateTextForPolly ''Take a slow breath.'' polly_limit)
      (voiceId ?cfg) = Inr ?b"
    by (simp add: tr env0_def)
  have cl: "clearPreviousAudio [(''current_audio.mp3'', File ''ID3:old'')] = []"
    by (simp add: clearPreviousAudio_def readdirSync_def endsWith_def unlinkSync_def)
  have h3: "writeFileSync (path_join (audioOutputDir ?env) (outputFileName ?cfg)) (outputFileName ?cfg)
      ?b (clearPreviousAudio (aud_op ?w)) = Inr [(''current_audio.mp3'', File ?b)]"
    by (simp add: cl writeFileSync_def spread_def defaultOptions_def no_options_def)
  have h4: "s3_put_object ?env (bucketName ?cfg)
      (''polly-output-'' @ string_of_nat (date_now ?env (clock_reads ?w)) @ ''.mp3'') ?b = Some ''Access Denied''"
    by simp
  have name: "outputFileName ?cfg = ''current_audio.mp3''"
    by (simp add: spread_def defaultOptions_def no_options_def)
  from storage_failure_keeps_local_write [OF refl h2 h3 h4 run]
  show ?thesis unfolding run name by simp
qed

lemma clear_each_regular:
  assumes "distinct names"
    and "\<forall>n\<in>set names. endsWith n ''.mp3'' \<longrightarrow> (\<exists>b. map_of d n = Some (File b))"
  shows "clear_each names d = filter (\<lambda>p. \<not> (endsWith (fst p) ''.mp3'' \<and> fst p \<in> set names)) d"
  using assms
proof (induction names arbitrary: d)
  case Nil
  then show ?case by simp
next
  case (Cons name names)
  show ?case
  proof (cases "endsWith name ''.mp3''")
    case True
    with Cons.prems obtain b where b: "map_of d name = Some (File b)" by auto
    have "\<forall>n\<in>set names. endsWith n ''.mp3'' \<longrightarrow> (\<exists>b. map_of (AList.delete name d) n = Some (File b))"
    proof (intro ballI impI)
      fix n assume n: "n \<in> set names" "endsWith n ''.mp3''"
      with Cons.prems have "n \<noteq> name" "\<exists>b. map_of d n = Some (File b)" by auto
      then show "\<exists>b. map_of (AList.delete name d) n = Some (File b)" by simp
    qed
    with Cons.IH [of "AList.delete name d"] Cons.prems(1)
    have "clear_each names (AList.delete name d) =
            filter (\<lambda>p. \<not> (endsWith (fst p) ''.mp3'' \<and> fst p \<in> set names)) (AList.delete name d)"
      by simp
    also have "\<dots> = filter (\<lambda>p. \<not> (endsWith (fst p) ''.mp3'' \<and> fst p \<in> set (name # names))) d"
      using True by (auto simp: AList.delete_eq intro!: filter_cong)
    finally show ?thesis using True b by (simp add: unlinkSync_def)
  next
    case False
    have "filter (\<lambda>p. \<not> (endsWith (fst p) ''.mp3'' \<and> fst p \<in> set names)) d
        = filter (\<lambda>p. \<not> (endsWith (fst p) ''.mp3'' \<and> fst p \<in> set (name # names))) d"
      using False by (auto intro!: filter_cong)
    with Cons.IH [of d] Cons.prems False show ?thesis by simp
  qed
qed

lemma clearPreviousAudio_regular:
  assumes "distinct (map fst d)"
    and "\<forall>p\<in>set d. endsWith (fst p) ''.mp3'' \<longrightarrow> snd p \<noteq> Directory"
  shows "clearPreviousAudio d = filter (\<lambda>p. \<not> endsWith (fst p) ''.mp3'') d"
proof -
  have "\<exists>b. map_of d n = Some (File b)" if "n \<in> set (map fst d)" "endsWith n ''.mp3''" for n
  proof -
    from that(1) obtain e where e: "(n, e) \<in> set d" by auto
    with assms(1) have "map_of d n = Some e" by simp
    moreover from assms(2) e that(2) have "e \<noteq> Directory" by auto
    ultimately show ?thesis by (cases e) auto
  qed
  then have "clear_each (map fst d) d
      = filter (\<lambda>p. \<not> (endsWith (fst p) ''.mp3'' \<and> fst p \<in> set (map fst d))) d"
    using assms(1) by (intro clear_each_regular) auto
  also have "\<dots> = filter (\<lambda>p. \<not> endsWith (fst p) ''.mp3'') d"
    by (auto intro!: filter_cong)
  finally show ?thesis by (simp add: clearPreviousAudio_def readdirSync_def)
qed

lemma update_absent: "k \<notin> fst ` set d \<Longrightarrow> AList.update k v d = d @ [(k, v)]"
  by (induction d) auto

lemma current_is_mp3: "endsWith ''current_audio.mp3'' ''.mp3''"
  by (simp add: endsWith_def)

lemma default_name: "opt_outputFileName opts = None \<Longrightarrow>
  outputFileName (spread defaultOptions opts) = ''current_audio.mp3''"
  by (simp add: spread_def defaultOptions_def)

lemma after_clear_and_write:
  assumes "distinct (map fst d)"
    and "\<forall>p\<in>set d. endsWith (fst p) ''.mp3'' \<longrightarrow> snd p \<noteq> Directory"
  shows "AList.update ''current_audio.mp3'' (File b) (clearPreviousAudio d)
       = filter (\<lambda>p. \<not> endsWith (fst p) ''.mp3'') d @ [(''current_audio.mp3'', File b)]"
proof -
  have "''current_audio.mp3'' \<notin> fst ` set (filter (\<lambda>p. \<not> endsWith (fst p) ''.mp3'') d)"
    using current_is_mp3 by auto
  then show ?thesis
    by (simp add: clearPreviousAudio_regular [OF assms] update_absent)
qed

text \<open>
  Claim C5, as amended. After two sequential successful calls of \<open>synthesizeSpeech\<close> that
  leave \<open>outputFileName\<close> at its default, exactly one entry of the local directory has the
  name \<open>current_audio.mp3\<close>, a file holding the bytes of the second call only; and when no
  \<open>.mp3\<close> entry of the directory was a subdirectory at the start, that file is the only
  \<open>.mp3\<close> entry left: each call has deleted the \<open>.mp3\<close> files it found. The directory is
  one whose names are distinct, as the names of a directory are.
\<close>

theorem single_slot_local_audio:
  assumes "opt_outputFileName opts1 = None" and "opt_outputFileName opts2 = None"
    and "distinct (map fst (aud_op w))"
    and "synthesizeSpeech env1 text1 opts1 w = (r1, w1)" and "success r1"
    and "synthesizeSpeech env2 text2 opts2 w1 = (r2, w2)" and "success r2"
    and "polly_send env2 (outputFormat (spread defaultOptions opts2))
           (truncateTextForPolly text2 polly_limit) (voiceId (spread defaultOptions opts2)) = Inr b2"
  shows "filter (\<lambda>p. fst p = ''current_audio.mp3'') (aud_op w2) = [(''current_audio.mp3'', File b2)]
     \<and> ((\<forall>p\<in>set (aud_op w). endsWith (fst p) ''.mp3'' \<longrightarrow> snd p \<noteq> Directory) \<longrightarrow>
          filter (\<lambda>p. endsWith (fst p) ''.mp3'') (aud_op w2) = [(''current_audio.mp3'', File b2)])"
proof -
  from synthesizeSpeech_success [OF assms(4,5)] assms(1)
  obtain b1 where w1: "aud_op w1 = AList.update ''current_audio.mp3'' (File b1) (clearPreviousAudio (aud_op w))"
    by (auto simp: default_name)
  from synthesizeSpeech_success [OF assms(6,7)] assms(2,8)
  have w2: "aud_op w2 = AList.update ''current_audio.mp3'' (File b2) (clearPreviousAudio (aud_op w1))"
    by (auto simp: default_name)
  have d1: "distinct (map fst (aud_op w1))"
    unfolding w1 using assms(3) by (simp add: AList.distinct_update clearPreviousAudio_distinct)
  have d2: "distinct (map fst (aud_op w2))"
    unfolding w2 using d1 by (simp add: AList.distinct_update clearPreviousAudio_distinct)
  have "map_of (aud_op w2) ''current_audio.mp3'' = Some (File b2)"
    unfolding w2 by (simp add: AList.update_conv')
  from one_entry [OF d2 this]
  have first: "filter (\<lambda>p. fst p = ''current_audio.mp3'') (aud_op w2) = [(''current_audio.mp3'', File b2)]" .
  have second: "filter (\<lambda>p. endsWith (fst p) ''.mp3'') (aud_op w2) = [(''current_audio.mp3'', File b2)]"
    if reg: "\<forall>p\<in>set (aud_op w). endsWith (fst p) ''.mp3'' \<longrightarrow> snd p \<noteq> Directory"
  proof -
    have a1: "aud_op w1 = filter (\<lambda>p. \<not> endsWith (fst p) ''.mp3'') (aud_op w) @ [(''current_audio.mp3'', File b1)]"
      unfolding w1 by (rule after_clear_and_write [OF assms(3) reg])
    have reg1: "\<forall>p\<in>set (aud_op w1). endsWith (fst p) ''.mp3'' \<longrightarrow> snd p \<noteq> Directory"
      unfolding a1 by auto
    have "aud_op w2 = filter (\<lambda>p. \<not> endsWith (fst p) ''.mp3'') (aud_op w1) @ [(''current_audio.mp3'', File b2)]"
      unfolding w2 by (rule after_clear_and_write [OF d1 reg1])
    then show ?thesis by (simp add: current_is_mp3 filter_empty_conv)
  qed
  from first second show ?thesis by blast
qed

text \<open>
  The storage keys of two sequential successful calls are \<open>polly-output-<t>.mp3\<close> for the
  two readings \<open>t\<close> of the clock; they are distinct exactly when the two readings differ,
  and then the second call leaves the object of the first call as it was. In particular
  this is so whenever the clock has advanced between the two calls.
\<close>

lemma storage_keys_distinct_iff_clock:
  assumes "synthesizeSpeech env1 text1 opts1 w = (r1, w1)" and "success r1"
    and "synthesizeSpeech env2 text2 opts2 w1 = (r2, w2)" and "success r2"
  shows "s3FileName r1 = ''polly-output-'' @ string_of_nat (date_now env1 (clock_reads w)) @ ''.mp3''
     \<and> s3FileName r2 = ''polly-output-'' @ string_of_nat (date_now env2 (Suc (clock_reads w))) @ ''.mp3''
     \<and> (s3FileName r1 = s3FileName r2 \<longleftrightarrow> date_now env1 (clock_reads w) = date_now env2 (Suc (clock_reads w)))
     \<and> (s3FileName r1 \<noteq> s3FileName r2 \<longrightarrow>
          s3_objects w2 (s3Bucket r1, s3FileName r1) = s3_objects w1 (s3Bucket r1, s3FileName r1))"
proof -
  from synthesizeSpeech_success [OF assms(1,2)]
  have k1: "s3FileName r1 = ''polly-output-'' @ string_of_nat (date_now env1 (clock_reads w)) @ ''.mp3''"
    and c1: "clock_reads w1 = Suc (clock_reads w)" by auto
  from synthesizeSpeech_success [OF assms(3,4)] obtain b where
    k2: "s3FileName r2 = ''polly-output-'' @ string_of_nat (date_now env2 (clock_reads w1)) @ ''.mp3''"
    and s2: "s3_objects w2 = (s3_objects w1)((s3Bucket r2, s3FileName r2) \<mapsto> b)" by auto
  have "s3FileName r1 = s3FileName r2 \<longleftrightarrow> date_now env1 (clock_reads w) = date_now env2 (Suc (clock_reads w))"
    unfolding k1 k2 c1 by (rule s3_key_inj)
  moreover have "s3_objects w2 (s3Bucket r1, s3FileName r1) = s3_objects w1 (s3Bucket r1, s3FileName r1)"
    if "s3FileName r1 \<noteq> s3FileName r2"
    using that by (simp add: s2)
  ultimately show ?thesis using k1 k2 c1 by simp
qed

lemma storage_keys_distinct_increasing:
  assumes "synthesizeSpeech env1 text1 opts1 w = (r1, w1)" and "success r1"
    and "synthesizeSpeech env2 text2 opts2 w1 = (r2, w2)" and "success r2"
    and "date_now env1 (clock_reads w) < date_now env2 (Suc (clock_reads w))"
  shows "s3FileName r1 \<noteq> s3FileName r2
     \<and> s3_objects w2 (s3Bucket r1, s3FileName r1) = s3_objects w1 (s3Bucket r1, s3FileName r1)"
proof -
  from assms(5) have ne: "date_now env1 (clock_reads w) \<noteq> date_now env2 (Suc (clock_reads w))"
    by simp
  from storage_keys_distinct_iff_clock [OF assms(1-4)]
  have iff: "s3FileName r1 = s3FileName r2
      \<longleftrightarrow> date_now env1 (clock_reads w) = date_now env2 (Suc (clock_reads w))"
    and keep: "s3FileName r1 \<noteq> s3FileName r2 \<longrightarrow>
      s3_objects w2 (s3Bucket r1, s3FileName r1) = s3_objects w1 (s3Bucket r1, s3FileName r1)"
    by blast+
  from iff ne have "s3FileName r1 \<noteq> s3FileName r2" by blast
  with keep show ?thesis by blast
qed

lemmas run_eval =
  synthesizeSpeech_def Let_def spread_def defaultOptions_def no_options_def clearPreviousAudio_def
  readdirSync_def endsWith_def unlinkSync_def writeFileSync_def Date_now_def putObject_def send_def
  path_join_def audioOutputDir_def env0_def world0_def world1_def string_of_nat.simps digit_def
  truncate_short polly_limit_def

lemma first_call:
  "synthesizeSpeech env0 ''First reply.'' no_options world1 =
     (SynthesisSuccess ''current_audio.mp3'' ''/srv/app/public/aud_op/current_audio.mp3''
        ''public/aud_op/current_audio.mp3'' ''polly-output-1763792857376.mp3'' ''mint-out''
        ''s3://mint-out/polly-output-1763792857376.mp3''
        ''Speech synthesized, saved locally to aud_op folder AND uploaded to S3 successfully'',
      \<lparr>calls = [SynthesizeSpeechCommand ''mp3'' ''First reply.'' ''Joanna'',
                PutObjectCommand ''mint-out'' ''polly-output-1763792857376.mp3'' ''ID3:First reply.''],
       clock_reads = 1,
       aud_op = [(''notes.txt'', File ''call back''), (''current_audio.mp3'', File ''ID3:First reply.'')],
       s3_objects = (\<lambda>k. None)((''mint-out'', ''polly-output-1763792857376.mp3'') \<mapsto> ''ID3:First reply.'')\<rparr>)"
  by (simp add: run_eval)

lemma second_call:
  "synthesizeSpeech env0 ''Second reply.'' no_options world2 =
     (SynthesisSuccess ''current_audio.mp3'' ''/srv/app/public/aud_op/current_audio.mp3''
        ''public/aud_op/current_audio.mp3'' ''polly-output-1763792857626.mp3'' ''mint-out''
        ''s3://mint-out/polly-output-1763792857626.mp3''
        ''Speech synthesized, saved locally to aud_op folder AND uploaded to S3 successfully'',
      world2\<lparr>calls := calls world2 @ [SynthesizeSpeechCommand ''mp3'' ''Second reply.'' ''Joanna'',
                PutObjectCommand ''mint-out'' ''polly-output-1763792857626.mp3'' ''ID3:Second reply.''],
       clock_reads := 2,
       aud_op := [(''notes.txt'', File ''call back''), (''current_audio.mp3'', File ''ID3:Second reply.'')],
       s3_objects := (s3_objects world2)((''mint-out'', ''polly-output-1763792857626.mp3'') \<mapsto> ''ID3:Second reply.'')\<rparr>)"
  by (simp add: run_eval world2_def)

text \<open>Claim C5, as amended, at two calls that start from \<open>world1\<close>.\<close>

theorem single_slot_local_audio_witness:
  "filter (\<lambda>p. fst p = ''current_audio.mp3'')
     (aud_op (snd (synthesizeSpeech env0 ''Second reply.'' no_options world2)))
     = [(''current_audio.mp3'', File ''ID3:Second reply.'')]
   \<and> filter (\<lambda>p. endsWith (fst p) ''.mp3'')
     (aud_op (snd (synthesizeSpeech env0 ''Second reply.'' no_options world2)))
     = [(''current_audio.mp3'', File ''ID3:Second reply.'')]"
proof -
  obtain r1 where run1: "synthesizeSpeech env0 ''First reply.'' no_options world1 = (r1, world2)"
    and s1: "success r1"
    by (simp add: first_call world2_def)
  obtain r2 w2 where run2: "synthesizeSpeech env0 ''Second reply.'' no_options world2 = (r2, w2)"
    and s2: "success r2"
    by (simp add: second_call)
  have o: "opt_outputFileName no_options = None" by (simp add: no_options_def)
  have d: "distinct (map fst (aud_op world1))" by (simp add: world1_def world0_def)
  have p: "polly_send env0 (outputFormat (spread defaultOptions no_options))
      (truncateTextForPolly ''Second reply.'' polly_limit) (voiceId (spread defaultOptions no_options))
      = Inr ''ID3:Second reply.''"
    by (simp add: env0_def truncate_short polly_limit_def)
  have reg: "\<forall>p\<in>set (aud_op world1). endsWith (fst p) ''.mp3'' \<longrightarrow> snd p \<noteq> Directory"
    by (simp add: world1_def world0_def)
  from single_slot_local_audio [OF o o d run1 s1 run2 s2 p] reg show ?thesis
    by (simp add: run2)
qed

lemma custom_call:
  "synthesizeSpeech env0 ''Hello world!''
      (no_options\<lparr>opt_bucketName := Some ''my-custom-bucket'', opt_outputFileName := Some ''custom-audio.mp3''\<rparr>)
      world0 =
     (SynthesisSuccess ''custom-audio.mp3'' ''/srv/app/public/aud_op/custom-audio.mp3''
        ''public/aud_op/custom-audio.mp3'' ''polly-output-1763792857376.mp3'' ''my-custom-bucket''
        ''s3://my-custom-bucket/polly-output-1763792857376.mp3''
        ''Speech synthesized, saved locally to aud_op folder AND uploaded to S3 successfully'',
      \<lparr>calls = [SynthesizeSpeechCommand ''mp3'' ''Hello world!'' ''Joanna'',
                PutObjectCommand ''my-custom-bucket'' ''polly-output-1763792857376.mp3'' ''ID3:Hello world!''],
       clock_reads = 1,
       aud_op = [(''custom-audio.mp3'', File ''ID3:Hello world!'')],
       s3_objects = (\<lambda>k. None)((''my-custom-bucket'', ''polly-output-1763792857376.mp3'') \<mapsto> ''ID3:Hello world!'')\<rparr>)"
  by (simp add: run_eval)

text \<open>
  Claim C5, as stated (every call writes under the fixed name \<open>current_audio.mp3\<close>), fails
  at the call the comment at the end of pol.js gives as an example: with
  \<open>outputFileName: 'custom-audio.mp3'\<close> the call succeeds and no entry of the directory is
  named \<open>current_audio.mp3\<close>.
\<close>

theorem custom_name_leaves_no_current_audio:
  "success (fst (synthesizeSpeech env0 ''Hello world!''
      (no_options\<lparr>opt_bucketName := Some ''my-custom-bucket'', opt_outputFileName := Some ''custom-audio.mp3''\<rparr>) world0))
   \<and> filter (\<lambda>p. fst p = ''current_audio.mp3'')
      (aud_op (snd (synthesizeSpeech env0 ''Hello world!''
        (no_options\<lparr>opt_bucketName := Some ''my-custom-bucket'', opt_outputFileName := Some ''custom-audio.mp3''\<rparr>) world0))) = []
   \<and> aud_op (snd (synthesizeSpeech env0 ''Hello world!''
        (no_options\<lparr>opt_bucketName := Some ''my-custom-bucket'', opt_outputFileName := Some ''custom-audio.mp3''\<rparr>) world0))
      = [(''custom-audio.mp3'', File ''ID3:Hello world!'')]"
  unfolding custom_call by simp

text \<open>Two calls 250 ms apart: two keys, and both objects are in the bucket.\<close>

lemma storage_keys_250_ms_apart:
  "s3FileName (fst (synthesizeSpeech env0 ''First reply.'' no_options world1)) = ''polly-output-1763792857376.mp3''
   \<and> s3FileName (fst (synthesizeSpeech env0 ''Second reply.'' no_options world2)) = ''polly-output-1763792857626.mp3''
   \<and> s3_objects (snd (synthesizeSpeech env0 ''Second reply.'' no_options world2))
        (''mint-out'', ''polly-output-1763792857376.mp3'') = Some ''ID3:First reply.''"
proof -
  obtain r1 where run1: "synthesizeSpeech env0 ''First reply.'' no_options world1 = (r1, world2)"
    and s1: "success r1" and b1: "s3Bucket r1 = ''mint-out''"
    by (simp add: first_call world2_def)
  obtain r2 w2 where run2: "synthesizeSpeech env0 ''Second reply.'' no_options world2 = (r2, w2)"
    and s2: "success r2"
    by (simp add: second_call)
  have t1: "date_now env0 (clock_reads world1) = 1763792857376" by (simp add: env0_def world1_def world0_def)
  have t2: "date_now env0 (Suc (clock_reads world1)) = 1763792857626" by (simp add: env0_def world1_def world0_def)
  have k1: "string_of_nat 1763792857376 = ''1763792857376''" by (simp add: string_of_nat.simps digit_def)
  have k2: "string_of_nat 1763792857626 = ''1763792857626''" by (simp add: string_of_nat.simps digit_def)
  from storage_keys_distinct_iff_clock [OF run1 s1 run2 s2]
  have "s3FileName r1 = ''polly-output-1763792857376.mp3''"
    and "s3FileName r2 = ''polly-output-1763792857626.mp3''"
    and "s3_objects w2 (''mint-out'', ''polly-output-1763792857376.mp3'')
       = s3_objects world2 (''mint-out'', ''polly-output-1763792857376.mp3'')"
    by (auto simp: t1 t2 k1 k2 b1)
  moreover have "s3_objects world2 (''mint-out'', ''polly-output-1763792857376.mp3'') = Some ''ID3:First reply.''"
    by (simp add: world2_def)
  ultimately show ?thesis by (simp add: run1 run2)
qed

lemma first_call_set_back:
  "synthesizeSpeech clock_set_back ''First reply.'' no_options world1 =
     (SynthesisSuccess ''current_audio.mp3'' ''/srv/app/public/aud_op/current_audio.mp3''
        ''public/aud_op/current_audio.mp3'' ''polly-output-1763792857376.mp3'' ''mint-out''
        ''s3://mint-out/polly-output-1763792857376.mp3''
        ''Speech synthesized, saved locally to aud_op folder AND uploaded to S3 successfully'',
      world2)"
  by (simp add: run_eval clock_set_back_def world2_def)

lemma second_call_set_back:
  "synthesizeSpeech clock_set_back ''Second reply.'' no_options world2 =
     (SynthesisSuccess ''current_audio.mp3'' ''/srv/app/public/aud_op/current_audio.mp3''
        ''public/aud_op/current_audio.mp3'' ''polly-output-1763792857376.mp3'' ''mint-out''
        ''s3://mint-out/polly-output-1763792857376.mp3''
        ''Speech synthesized, saved locally to aud_op folder AND uploaded to S3 successfully'',
      world2\<lparr>calls := calls world2 @ [SynthesizeSpeechCommand ''mp3'' ''Second reply.'' ''Joanna'',
                PutObjectCommand ''mint-out'' ''polly-output-1763792857376.mp3'' ''ID3:Second reply.''],
       clock_reads := 2,
       aud_op := [(''notes.txt'', File ''call back''), (''current_audio.mp3'', File ''ID3:Second reply.'')],
       s3_objects := (s3_objects world2)((''mint-out'', ''polly-output-1763792857376.mp3'') \<mapsto> ''ID3:Second reply.'')\<rparr>)"
  by (simp add: run_eval clock_set_back_def world2_def)

text \<open>
  Claim C4 (the storage keys of two sequential calls are distinct, so that no stored object
  is overwritten) is what the comment on the key's line says, \<open>Unique filename for S3\<close>,
  and the code does not keep it: the key is the reading of \<open>Date.now()\<close> and nothing else,
  a wall clock that can read the same millisecond twice. With \<open>clock_set_back\<close> both calls
  succeed with the key \<open>polly-output-1763792857376.mp3\<close>, and the second upload replaces
  the object of the first.
\<close>

theorem same_millisecond_same_key:
  "success (fst (synthesizeSpeech clock_set_back ''First reply.'' no_options world1))
   \<and> snd (synthesizeSpeech clock_set_back ''First reply.'' no_options world1) = world2
   \<and> success (fst (synthesizeSpeech clock_set_back ''Second reply.'' no_options world2))
   \<and> s3FileName (fst (synthesizeSpeech clock_set_back ''Second reply.'' no_options world2))
     = s3FileName (fst (synthesizeSpeech clock_set_back ''First reply.'' no_options world1))
   \<and> s3_objects world2 (''mint-out'', ''polly-output-1763792857376.mp3'') = Some ''ID3:First reply.''
   \<and> s3_objects (snd (synthesizeSpeech clock_set_back ''Second reply.'' no_options world2))
        (''mint-out'', ''polly-output-1763792857376.mp3'') = Some ''ID3:Second reply.''"
  unfolding first_call_set_back second_call_set_back by (simp add: world2_def)

section \<open>The transcription stage and the pipeline\<close>

lemma s3_uri_test_built:
  "s3_uri_test (''s3://mint-in/'' @ audio) \<longleftrightarrow> audio \<noteq> [] \<and> \<not> isLineTerminator (hd audio)"
  by (cases audio) (simp_all add: s3_uri_test_def)

lemma startTranscription_transcribe_js:
  "startTranscription transcribe_js env jobName audio w =
     startJob env jobName (''s3://mint-bucket1/'' @ audio) ''mint-bucket1'' None w"
  by (simp add: startTranscription_def transcribe_bucketName_def Let_def)

lemma startTranscription_part_000_malformed:
  "audio = [] \<or> isLineTerminator (hd audio) \<Longrightarrow>
   startTranscription part_000 env jobName audio w =
     (Inl (''Invalid S3 URI constructed for Transcribe: s3://mint-in/'' @ audio), w)"
  using s3_uri_test_built [of audio]
  by (auto simp: startTranscription_def transcribe_bucketName_def Let_def)

lemma startTranscription_part_000_missing:
  "audio \<noteq> [] \<Longrightarrow> \<not> isLineTerminator (hd audio) \<Longrightarrow>
   s3_head_object env ''mint-in'' audio = Some e \<Longrightarrow>
   startTranscription part_000 env jobName audio w =
     (Inl (''S3 object not found or inaccessible: s3://mint-in/'' @ audio @ '' -- '' @ e),
      send (HeadObjectCommand ''mint-in'' audio) w)"
  using s3_uri_test_built [of audio]
  by (auto simp: startTranscription_def transcribe_bucketName_def Let_def)

lemma startTranscription_part_000_found:
  "audio \<noteq> [] \<Longrightarrow> \<not> isLineTerminator (hd audio) \<Longrightarrow>
   s3_head_object env ''mint-in'' audio = None \<Longrightarrow>
   startTranscription part_000 env jobName audio w =
     startJob env jobName (''s3://mint-in/'' @ audio) ''mint-in'' (role_arn env)
       (send (HeadObjectCommand ''mint-in'' audio) w)"
  using s3_uri_test_built [of audio]
  by (auto simp: startTranscription_def transcribe_bucketName_def Let_def)

lemma startTranscription_transcribe_js_submits:
  "calls (snd (startTranscription transcribe_js env jobName audio w)) =
     calls w @ [StartTranscriptionJobCommand jobName (''s3://mint-bucket1/'' @ audio) ''mint-bucket1'' None]"
  by (simp add: startTranscription_transcribe_js startJob_def send_def Let_def split: option.splits)

lemma quiet_refl: "quiet w w"
  by (simp add: quiet_def)

lemma quiet_trans: "quiet w w' \<Longrightarrow> quiet w' w'' \<Longrightarrow> quiet w w''"
  by (simp add: quiet_def)

lemma quiet_send: "\<not> generation_or_synthesis c \<Longrightarrow> quiet w (send c w)"
  by (simp add: quiet_def send_def)

lemma quiet_polls: "quiet w (polls jobName k w)"
proof (induction k arbitrary: w)
  case 0
  show ?case by (simp add: quiet_refl)
next
  case (Suc k)
  have "quiet w (send (GetTranscriptionJobCommand jobName) w)" by (simp add: quiet_send)
  from quiet_trans [OF this Suc.IH] show ?case by simp
qed

lemma quiet_startJob: "startJob env jobName uri bucket role w = (r, w') \<Longrightarrow> quiet w w'"
  by (auto simp: startJob_def Let_def quiet_send split: option.splits)

lemma quiet_startTranscription:
  "startTranscription f env jobName key w = (r, w') \<Longrightarrow> quiet w w'"
proof (cases f)
  case transcribe_js
  assume "startTranscription f env jobName key w = (r, w')"
  with transcribe_js show ?thesis
    by (auto simp: startTranscription_def Let_def dest: quiet_startJob)
next
  case part_000
  assume run: "startTranscription f env jobName key w = (r, w')"
  have h: "quiet w (send (HeadObjectCommand (transcribe_bucketName part_000) key) w)"
    by (simp add: quiet_send)
  from run part_000 show ?thesis
    by (auto simp: startTranscription_def Let_def quiet_refl h
        split: if_splits option.splits dest: quiet_startJob intro: quiet_trans [OF h])
qed

lemma quiet_putObject: "putObject env bucket key body w = (r, w') \<Longrightarrow> quiet w w'"
  by (auto simp: putObject_def Let_def quiet_def send_def split: option.splits)

lemma quiet_getTranscriptText: "getTranscriptText f env jobName w = (r, w') \<Longrightarrow> quiet w w'"
proof -
  assume run: "getTranscriptText f env jobName w = (r, w')"
  let ?w1 = "send (GetObjectCommand (transcribe_bucketName f) (jobName @ ''.json'')) w"
  have h: "quiet w ?w1" by (simp add: quiet_send)
  from run show ?thesis
    by (auto simp: getTranscriptText_def Let_def h split: sum.splits prod.splits
        dest!: quiet_putObject intro: quiet_trans [OF h])
qed

lemma quiet_waitForCompletion:
  assumes "waitForCompletion env jobName n w = Some y"
  shows "quiet w (snd y)"
proof (rule waitForCompletion.raw_induct
    [where P = "\<lambda>env jobName n w y. quiet w (snd y)", OF _ assms])
  fix wait :: "env \<Rightarrow> string \<Rightarrow> nat \<Rightarrow> world \<Rightarrow> ((string + string) \<times> world) option"
    and env jobName n w y
  assume IH: "\<And>env jobName n w y. wait env jobName n w = Some y \<Longrightarrow> quiet w (snd y)"
    and step: "(case transcribe_get env jobName n of
        Inl e \<Rightarrow> Some (Inl e, send (GetTranscriptionJobCommand jobName) w)
      | Inr FAILED \<Rightarrow> Some (Inl ''Transcription job failed.'', send (GetTranscriptionJobCommand jobName) w)
      | Inr (COMPLETED uri) \<Rightarrow> Some (Inr uri, send (GetTranscriptionJobCommand jobName) w)
      | Inr _ \<Rightarrow> wait env jobName (Suc n) (send (GetTranscriptionJobCommand jobName) w)) = Some y"
  have h: "quiet w (send (GetTranscriptionJobCommand jobName) w)" by (simp add: quiet_send)
  from step show "quiet w (snd y)"
    by (auto simp: h split: sum.splits job_status.splits dest!: IH intro: quiet_trans [OF h])
qed

lemma waitForCompletion_failed:
  assumes "\<forall>j<k. transcribe_get env jobName (n + j) = Inr QUEUED
                 \<or> transcribe_get env jobName (n + j) = Inr IN_PROGRESS"
    and "transcribe_get env jobName (n + k) = Inr FAILED"
  shows "waitForCompletion env jobName n w
           = Some (Inl ''Transcription job failed.'', polls jobName (Suc k) w)"
  using assms
proof (induction k arbitrary: n w)
  case 0
  then show ?case by (subst waitForCompletion.simps) simp
next
  case (Suc k)
  from Suc.prems(1) have now: "transcribe_get env jobName n = Inr QUEUED
      \<or> transcribe_get env jobName n = Inr IN_PROGRESS"
    by (metis add.right_neutral zero_less_Suc)
  have later: "\<forall>j<k. transcribe_get env jobName (Suc n + j) = Inr QUEUED
      \<or> transcribe_get env jobName (Suc n + j) = Inr IN_PROGRESS"
  proof (intro allI impI)
    fix j assume "j < k"
    then have "Suc j < Suc k" by simp
    with Suc.prems(1) have "transcribe_get env jobName (n + Suc j) = Inr QUEUED
      \<or> transcribe_get env jobName (n + Suc j) = Inr IN_PROGRESS" by blast
    then show "transcribe_get env jobName (Suc n + j) = Inr QUEUED
      \<or> transcribe_get env jobName (Suc n + j) = Inr IN_PROGRESS" by simp
  qed
  from Suc.prems(2) have last: "transcribe_get env jobName (Suc n + k) = Inr FAILED" by simp
  from Suc.IH [OF later last]
  have "waitForCompletion env jobName (Suc n) (send (GetTranscriptionJobCommand jobName) w)
      = Some (Inl ''Transcription job failed.'', polls jobName (Suc (Suc k)) w)"
    by simp
  with now show ?case by (subst waitForCompletion.simps) auto
qed

lemma waitForCompletion_completed:
  assumes "\<forall>j<k. transcribe_get env jobName (n + j) = Inr QUEUED
                 \<or> transcribe_get env jobName (n + j) = Inr IN_PROGRESS"
    and "transcribe_get env jobName (n + k) = Inr (COMPLETED uri)"
  shows "waitForCompletion env jobName n w = Some (Inr uri, polls jobName (Suc k) w)"
  using assms
proof (induction k arbitrary: n w)
  case 0
  then show ?case by (subst waitForCompletion.simps) simp
next
  case (Suc k)
  from Suc.prems(1) have now: "transcribe_get env jobName n = Inr QUEUED
      \<or> transcribe_get env jobName n = Inr IN_PROGRESS"
    by (metis add.right_neutral zero_less_Suc)
  have later: "\<forall>j<k. transcribe_get env jobName (Suc n + j) = Inr QUEUED
      \<or> transcribe_get env jobName (Suc n + j) = Inr IN_PROGRESS"
  proof (intro allI impI)
    fix j assume "j < k"
    then have "Suc j < Suc k" by simp
    with Suc.prems(1) have "transcribe_get env jobName (n + Suc j) = Inr QUEUED
      \<or> transcribe_get env jobName (n + Suc j) = Inr IN_PROGRESS" by blast
    then show "transcribe_get env jobName (Suc n + j) = Inr QUEUED
      \<or> transcribe_get env jobName (Suc n + j) = Inr IN_PROGRESS" by simp
  qed
  from Suc.prems(2) have last: "transcribe_get env jobName (Suc n + k) = Inr (COMPLETED uri)" by simp
  from Suc.IH [OF later last]
  have "waitForCompletion env jobName (Suc n) (send (GetTranscriptionJobCommand jobName) w)
      = Some (Inr uri, polls jobName (Suc (Suc k)) w)"
    by simp
  with now show ?case by (subst waitForCompletion.simps) auto
qed

lemma quiet_transcribeAudio:
  assumes "transcribeAudio f env fileName w = Some (r, w')"
  shows "quiet w w'"
proof -
  let ?jobName = "''MyTranscriptionJob-'' @ string_of_nat (date_now env (clock_reads w))"
  let ?w0 = "w\<lparr>clock_reads := Suc (clock_reads w)\<rparr>"
  have q0: "quiet w ?w0" by (simp add: quiet_def)
  obtain s w1 where start: "startTranscription f env ?jobName fileName ?w0 = (s, w1)"
    by (cases "startTranscription f env ?jobName fileName ?w0")
  from quiet_startTranscription [OF start] q0 have q1: "quiet w w1" by (rule quiet_trans [rotated])
  show ?thesis
  proof (cases s)
    case (Inl e)
    with assms start have "w' = w1" by (simp add: transcribeAudio_def Date_now_def Let_def)
    with q1 show ?thesis by simp
  next
    case (Inr u)
    show ?thesis
    proof (cases "waitForCompletion env ?jobName 0 w1")
      case None
      with assms start Inr show ?thesis by (simp add: transcribeAudio_def Date_now_def Let_def)
    next
      case (Some y)
      obtain v w2 where y: "y = (v, w2)" by (cases y)
      from quiet_waitForCompletion [OF Some] y have q2: "quiet w1 w2" by simp
      show ?thesis
      proof (cases v)
        case (Inl e)
        with assms start Inr Some y have "w' = w2" by (simp add: transcribeAudio_def Date_now_def Let_def)
        with q1 q2 show ?thesis by (auto intro: quiet_trans)
      next
        case (Inr uri)
        with assms start \<open>s = Inr u\<close> Some y have "getTranscriptText f env ?jobName w2 = (r, w')"
          by (simp add: transcribeAudio_def Date_now_def Let_def)
        from quiet_getTranscriptText [OF this] q1 q2 show ?thesis by (auto intro: quiet_trans)
      qed
    qed
  qed
qed

lemma transcribeAudio_start_failed:
  assumes "startTranscription f env (''MyTranscriptionJob-'' @ string_of_nat (date_now env (clock_reads w)))
             fileName (w\<lparr>clock_reads := Suc (clock_reads w)\<rparr>) = (Inl e, w0)"
  shows "transcribeAudio f env fileName w = Some (Inl e, w0)"
  using assms by (simp add: transcribeAudio_def Date_now_def Let_def)

lemma transcribeAudio_job_failed:
  assumes "startTranscription f env (''MyTranscriptionJob-'' @ string_of_nat (date_now env (clock_reads w)))
             fileName (w\<lparr>clock_reads := Suc (clock_reads w)\<rparr>) = (Inr u, w0)"
    and "\<forall>j<k. transcribe_get env (''MyTranscriptionJob-'' @ string_of_nat (date_now env (clock_reads w))) j = Inr QUEUED
               \<or> transcribe_get env (''MyTranscriptionJob-'' @ string_of_nat (date_now env (clock_reads w))) j = Inr IN_PROGRESS"
    and "transcribe_get env (''MyTranscriptionJob-'' @ string_of_nat (date_now env (clock_reads w))) k = Inr FAILED"
  shows "transcribeAudio f env fileName w =
           Some (Inl ''Transcription job failed.'',
                 polls (''MyTranscriptionJob-'' @ string_of_nat (date_now env (clock_reads w))) (Suc k) w0)"
proof -
  let ?jobName = "''MyTranscriptionJob-'' @ string_of_nat (date_now env (clock_reads w))"
  have "waitForCompletion env ?jobName 0 w0 = Some (Inl ''Transcription job failed.'', polls ?jobName (Suc k) w0)"
    using assms(2,3) by (intro waitForCompletion_failed) simp_all
  with assms(1) show ?thesis by (simp add: transcribeAudio_def Date_now_def Let_def)
qed

lemma transcribeAudio_job_completed:
  assumes "startTranscription f env (''MyTranscriptionJob-'' @ string_of_nat (date_now env (clock_reads w)))
             fileName (w\<lparr>clock_reads := Suc (clock_reads w)\<rparr>) = (Inr u, w0)"
    and "\<forall>j<k. transcribe_get env (''MyTranscriptionJob-'' @ string_of_nat (date_now env (clock_reads w))) j = Inr QUEUED
               \<or> transcribe_get env (''MyTranscriptionJob-'' @ string_of_nat (date_now env (clock_reads w))) j = Inr IN_PROGRESS"
    and "transcribe_get env (''MyTranscriptionJob-'' @ string_of_nat (date_now env (clock_reads w))) k = Inr (COMPLETED uri)"
  shows "transcribeAudio f env fileName w =
           Some (getTranscriptText f env (''MyTranscriptionJob-'' @ string_of_nat (date_now env (clock_reads w)))
                   (polls (''MyTranscriptionJob-'' @ string_of_nat (date_now env (clock_reads w))) (Suc k) w0))"
proof -
  let ?jobName = "''MyTranscriptionJob-'' @ string_of_nat (date_now env (clock_reads w))"
  have "waitForCompletion env ?jobName 0 w0 = Some (Inr uri, polls ?jobName (Suc k) w0)"
    using assms(2,3) by (intro waitForCompletion_completed) simp_all
  with assms(1) show ?thesis by (simp add: transcribeAudio_def Date_now_def Let_def)
qed

lemma pipeline_transcription_failed:
  assumes "transcribeAudio f env fileName w = Some (Inl e, w1)"
  shows "processAudioWithAI f env fileName w = Some (PipelineFailure e ''AI Pipeline'', w1) \<and> quiet w w1"
  using assms quiet_transcribeAudio [OF assms] by (simp add: processAudioWithAI_def)

lemma generation_error_prefix:
  "generateTextWithGranite env prompt w = (Inl e, w') \<Longrightarrow> take 27 e = ''Watsonx Granite LLM error: ''"
  by (auto simp: generateTextWithGranite_def split: prod.splits sum.splits)

lemma pipeline_generation_failed:
  assumes "transcribeAudio f env fileName w = Some (Inr transcribed, w1)"
    and "generateTextWithGranite env transcribed w1 = (Inl e, w2)"
  shows "processAudioWithAI f env fileName w = Some (PipelineFailure e ''AI Pipeline'', w2)"
  using assms by (simp add: processAudioWithAI_def)

lemma pipeline_synthesis_failed:
  assumes "transcribeAudio f env fileName w = Some (Inr transcribed, w1)"
    and "generateTextWithGranite env transcribed w1 = (Inr ai, w2)"
    and "synthesizeSpeech env ai no_options w2 = (SynthesisFailure e, w3)"
  shows "processAudioWithAI f env fileName w =
           Some (PipelineFailure (''Speech synthesis failed: '' @ e) ''AI Pipeline'', w3)"
  using assms by (simp add: processAudioWithAI_def)

lemma pipeline_job_failed:
  assumes "startTranscription f env (''MyTranscriptionJob-'' @ string_of_nat (date_now env (clock_reads w)))
             fileName (w\<lparr>clock_reads := Suc (clock_reads w)\<rparr>) = (Inr u, w0)"
    and "\<forall>j<k. transcribe_get env (''MyTranscriptionJob-'' @ string_of_nat (date_now env (clock_reads w))) j = Inr QUEUED
               \<or> transcribe_get env (''MyTranscriptionJob-'' @ string_of_nat (date_now env (clock_reads w))) j = Inr IN_PROGRESS"
    and "transcribe_get env (''MyTranscriptionJob-'' @ string_of_nat (date_now env (clock_reads w))) k = Inr FAILED"
  shows "processAudioWithAI f env fileName w =
           Some (PipelineFailure ''Transcription job failed.'' ''AI Pipeline'',
                 polls (''MyTranscriptionJob-'' @ string_of_nat (date_now env (clock_reads w))) (Suc k) w0)
         \<and> quiet w (polls (''MyTranscriptionJob-'' @ string_of_nat (date_now env (clock_reads w))) (Suc k) w0)"
  by (rule pipeline_transcription_failed [OF transcribeAudio_job_failed [OF assms]])

text \<open>
  Claim C2, as amended. Whichever stage fails, \<open>processAudioWithAI\<close> returns a failure
  result that carries the underlying message and the fixed label \<open>AI Pipeline\<close> in its
  \<open>step\<close> field: the message of the transcription stage as it is, the message of the
  generation stage, which starts with \<open>Watsonx Granite LLM error: \<close>, and the message of
  the synthesis stage behind \<open>Speech synthesis failed: \<close>. In particular, when the job was
  submitted and its status becomes \<open>FAILED\<close> at the \<open>k\<close>-th poll after \<open>k\<close> polls that
  found it queued or in progress, the result carries \<open>Transcription job failed.\<close>, and
  neither the generation service nor the synthesis service is invoked.
\<close>

theorem pipeline_failure_result:
  "(transcribeAudio f env fileName w = Some (Inl e, w1) \<longrightarrow>
      processAudioWithAI f env fileName w = Some (PipelineFailure e ''AI Pipeline'', w1) \<and> quiet w w1)
   \<and> (transcribeAudio f env fileName w = Some (Inr transcribed, w1)
        \<and> generateTextWithGranite env transcribed w1 = (Inl e, w2) \<longrightarrow>
      processAudioWithAI f env fileName w = Some (PipelineFailure e ''AI Pipeline'', w2)
      \<and> take 27 e = ''Watsonx Granite LLM error: '')
   \<and> (transcribeAudio f env fileName w = Some (Inr transcribed, w1)
        \<and> generateTextWithGranite env transcribed w1 = (Inr ai, w2)
        \<and> synthesizeSpeech env ai no_options w2 = (SynthesisFailure e, w3) \<longrightarrow>
      processAudioWithAI f env fileName w =
        Some (PipelineFailure (''Speech synthesis failed: '' @ e) ''AI Pipeline'', w3))
   \<and> (startTranscription f env (''MyTranscriptionJob-'' @ string_of_nat (date_now env (clock_reads w)))
          fileName (w\<lparr>clock_reads := Suc (clock_reads w)\<rparr>) = (Inr u, w0)
        \<and> (\<forall>j<k. transcribe_get env (''MyTranscriptionJob-'' @ string_of_nat (date_now env (clock_reads w))) j = Inr QUEUED
               \<or> transcribe_get env (''MyTranscriptionJob-'' @ string_of_nat (date_now env (clock_reads w))) j = Inr IN_PROGRESS)
        \<and> transcribe_get env (''MyTranscriptionJob-'' @ string_of_nat (date_now env (clock_reads w))) k = Inr FAILED \<longrightarrow>
      processAudioWithAI f env fileName w =
        Some (PipelineFailure ''Transcription job failed.'' ''AI Pipeline'',
              polls (''MyTranscriptionJob-'' @ string_of_nat (date_now env (clock_reads w))) (Suc k) w0)
      \<and> quiet w (polls (''MyTranscriptionJob-'' @ string_of_nat (date_now env (clock_reads w))) (Suc k) w0))"
  using pipeline_transcription_failed [of f env fileName w e w1]
    pipeline_generation_failed [of f env fileName w transcribed w1 e w2]
    generation_error_prefix [of env transcribed w1 e w2]
    pipeline_synthesis_failed [of f env fileName w transcribed w1 ai w2 e w3]
    pipeline_job_failed [of f env w fileName u w0 k]
  by blast

lemma getTranscriptText_stored:
  assumes "s3_get_transcripts env (transcribe_bucketName f) (jobName @ ''.json'') = Inr ts"
    and "s3_put_object env (transcribe_bucketName f) (jobName @ ''.txt'') (join [CHR 0x0A] ts) = None"
  shows "fst (getTranscriptText f env jobName w) = Inr (join [CHR 0x0A] ts)"
  using assms by (simp add: getTranscriptText_def putObject_def Let_def)

lemma startJob_accepted:
  "transcribe_start env jobName uri = None \<Longrightarrow>
   startJob env jobName uri bucket role w =
     (Inr (), send (StartTranscriptionJobCommand jobName uri bucket role) w)"
  by (simp add: startJob_def Let_def)

lemma env0_transcribed:
  assumes "date_now env = date_now env0" and "transcribe_start env = transcribe_start env0"
    and "transcribe_get env = transcribe_get env0"
    and "s3_get_transcripts env = s3_get_transcripts env0"
    and "s3_put_object env = s3_put_object env0"
  shows "\<exists>w1. transcribeAudio transcribe_js env ''recording-1763792850000.mp3'' world0
           = Some (Inr ''I feel anxious today'', w1)"
proof -
  let ?jobName = "''MyTranscriptionJob-'' @ string_of_nat (date_now env (clock_reads world0))"
  let ?w0 = "send (StartTranscriptionJobCommand ?jobName (''s3://mint-bucket1/'' @ ''recording-1763792850000.mp3'')
      ''mint-bucket1'' None) (world0\<lparr>clock_reads := Suc (clock_reads world0)\<rparr>)"
  have start: "startTranscription transcribe_js env ?jobName ''recording-1763792850000.mp3''
      (world0\<lparr>clock_reads := Suc (clock_reads world0)\<rparr>) = (Inr (), ?w0)"
    unfolding startTranscription_transcribe_js
    by (rule startJob_accepted) (simp add: assms env0_def)
  have pending: "\<forall>j<2. transcribe_get env ?jobName j = Inr QUEUED \<or> transcribe_get env ?jobName j = Inr IN_PROGRESS"
    by (simp add: assms env0_def)
  have fin: "transcribe_get env ?jobName 2 = Inr (COMPLETED ''https://s3/transcript.json'')"
    by (simp add: assms env0_def)
  have "fst (getTranscriptText transcribe_js env ?jobName (polls ?jobName (Suc 2) ?w0))
      = Inr (join [CHR 0x0A] [''I feel anxious today''])"
    by (rule getTranscriptText_stored) (simp_all add: assms env0_def)
  then obtain w1 where "getTranscriptText transcribe_js env ?jobName (polls ?jobName (Suc 2) ?w0)
      = (Inr ''I feel anxious today'', w1)"
    by (cases "getTranscriptText transcribe_js env ?jobName (polls ?jobName (Suc 2) ?w0)") simp
  with transcribeAudio_job_completed [OF start pending fin] show ?thesis by auto
qed

lemma job_fails_start:
  "startTranscription transcribe_js job_fails
      (''MyTranscriptionJob-'' @ string_of_nat (date_now job_fails (clock_reads world0)))
      ''recording-1763792850000.mp3'' (world0\<lparr>clock_reads := Suc (clock_reads world0)\<rparr>)
   = (Inr (),
      send (StartTranscriptionJobCommand
              (''MyTranscriptionJob-'' @ string_of_nat (date_now job_fails (clock_reads world0)))
              (''s3://mint-bucket1/'' @ ''recording-1763792850000.mp3'') ''mint-bucket1'' None)
        (world0\<lparr>clock_reads := Suc (clock_reads world0)\<rparr>))"
  unfolding startTranscription_transcribe_js
  by (rule startJob_accepted) (simp add: job_fails_def env0_def)

lemma job_fails_pending:
  "\<forall>j<2. transcribe_get job_fails jobName j = Inr QUEUED \<or> transcribe_get job_fails jobName j = Inr IN_PROGRESS"
  by (simp add: job_fails_def)

lemma job_fails_failed: "transcribe_get job_fails jobName 2 = Inr FAILED"
  by (simp add: job_fails_def)

text \<open>
  Claim C2, as stated (the result tags the stage that failed, \<open>transcription\<close> for a failed
  job), fails: for a job that fails at its third poll the \<open>step\<close> field is
  \<open>AI Pipeline\<close>.
\<close>

theorem failed_job_is_not_tagged:
  "map_option (step \<circ> fst)
     (processAudioWithAI transcribe_js job_fails ''recording-1763792850000.mp3'' world0)
     = Some ''AI Pipeline''
   \<and> map_option (step \<circ> fst)
     (processAudioWithAI transcribe_js job_fails ''recording-1763792850000.mp3'' world0)
     \<noteq> Some ''transcription''
   \<and> map_option (pipeline_error \<circ> fst)
     (processAudioWithAI transcribe_js job_fails ''recording-1763792850000.mp3'' world0)
     = Some ''Transcription job failed.''"
  using pipeline_job_failed [OF job_fails_start job_fails_pending job_fails_failed]
  by simp

text \<open>Claim C2, as amended, at a failed job, a rejected generation and a rejected
  synthesis.\<close>

theorem pipeline_failure_result_witness:
  "map_option fst (processAudioWithAI transcribe_js job_fails ''recording-1763792850000.mp3'' world0)
     = Some (PipelineFailure ''Transcription job failed.'' ''AI Pipeline'')
   \<and> map_option (quiet world0 \<circ> snd)
       (processAudioWithAI transcribe_js job_fails ''recording-1763792850000.mp3'' world0) = Some True
   \<and> map_option fst (processAudioWithAI transcribe_js generation_down ''recording-1763792850000.mp3'' world0)
     = Some (PipelineFailure ''Watsonx Granite LLM error: 503 Service Unavailable'' ''AI Pipeline'')
   \<and> map_option fst (processAudioWithAI transcribe_js polly_down ''recording-1763792850000.mp3'' world0)
     = Some (PipelineFailure ''Speech synthesis failed: Rate exceeded'' ''AI Pipeline'')"
proof -
  let ?file = "''recording-1763792850000.mp3''"
  have a: "map_option fst (processAudioWithAI transcribe_js job_fails ?file world0)
      = Some (PipelineFailure ''Transcription job failed.'' ''AI Pipeline'')
    \<and> map_option (quiet world0 \<circ> snd) (processAudioWithAI transcribe_js job_fails ?file world0) = Some True"
    using pipeline_failure_result [where f = transcribe_js and env = job_fails and fileName = ?file
        and w = world0 and u = "()" and k = 2] job_fails_start job_fails_pending job_fails_failed
    by simp
  obtain w1 where t1: "transcribeAudio transcribe_js generation_down ?file world0
      = Some (Inr ''I feel anxious today'', w1)"
    using env0_transcribed [of generation_down] by (auto simp: generation_down_def)
  have g1: "generateTextWithGranite generation_down ''I feel anxious today'' w1
      = (Inl ''Watsonx Granite LLM error: 503 Service Unavailable'', send (GenerateText ''I feel anxious today'') w1)"
    by (simp add: generateTextWithGranite_def generate_try_def generation_down_def env0_def)
  have b: "map_option fst (processAudioWithAI transcribe_js generation_down ?file world0)
     = Some (PipelineFailure ''Watsonx Granite LLM error: 503 Service Unavailable'' ''AI Pipeline'')"
    using pipeline_failure_result [where f = transcribe_js and env = generation_down
        and fileName = ?file and w = world0
        and e = "''Watsonx Granite LLM error: 503 Service Unavailable''" and ?w1.0 = w1
        and transcribed = "''I feel anxious today''"
        and ?w2.0 = "send (GenerateText ''I feel anxious today'') w1"] t1 g1
    by simp
  obtain w2 where t2: "transcribeAudio transcribe_js polly_down ?file world0
      = Some (Inr ''I feel anxious today'', w2)"
    using env0_transcribed [of polly_down] by (auto simp: polly_down_def)
  have g2: "generateTextWithGranite polly_down ''I feel anxious today'' w2
      = (Inr ''Take a slow breath.'', send (GenerateText ''I feel anxious today'') w2)"
    by (simp add: generateTextWithGranite_def generate_try_def polly_down_def env0_def
        read_response_def response_results_def trim_def isWhiteSpace_def)
  have "fst (synthesizeSpeech polly_down ''Take a slow breath.'' no_options
      (send (GenerateText ''I feel anxious today'') w2)) = SynthesisFailure ''Rate exceeded''"
    by (simp add: synthesizeSpeech_def Let_def polly_down_def env0_def)
  then obtain w3 where s2: "synthesizeSpeech polly_down ''Take a slow breath.'' no_options
      (send (GenerateText ''I feel anxious today'') w2) = (SynthesisFailure ''Rate exceeded'', w3)"
    by (cases "synthesizeSpeech polly_down ''Take a slow breath.'' no_options
      (send (GenerateText ''I feel anxious today'') w2)") simp
  have c: "map_option fst (processAudioWithAI transcribe_js polly_down ?file world0)
     = Some (PipelineFailure ''Speech synthesis failed: Rate exceeded'' ''AI Pipeline'')"
    using pipeline_failure_result [where f = transcribe_js and env = polly_down and fileName = ?file
        and w = world0 and e = "''Rate exceeded''" and ?w1.0 = w2
        and transcribed = "''I feel anxious today''" and ai = "''Take a slow breath.''"
        and ?w2.0 = "send (GenerateText ''I feel anxious today'') w2" and ?w3.0 = w3] t2 g2 s2
    by simp
  from a b c show ?thesis by simp
qed

text \<open>
  Claim C3 does not hold of \<open>startTranscription\<close> in transcribe.js, the file that help.js
  loads: for an empty key, and for a key whose object S3 does not find, it submits the job
  without any check. The version in the second file rejects both before submitting, the
  first with \<open>Invalid S3 URI constructed for Transcribe\<close> and no request at all, the second
  with \<open>S3 object not found or inaccessible\<close> after the \<open>HeadObject\<close> request only
  (\<open>startTranscription_part_000_malformed\<close>, \<open>startTranscription_part_000_missing\<close>).
\<close>

theorem start_transcription_unchecked:
  "startTranscription transcribe_js object_missing ''MyTranscriptionJob-1763792857376'' [] world0
     = (Inr (), world0\<lparr>calls := [StartTranscriptionJobCommand ''MyTranscriptionJob-1763792857376''
                                    ''s3://mint-bucket1/'' ''mint-bucket1'' None]\<rparr>)
   \<and> startTranscription transcribe_js object_missing ''MyTranscriptionJob-1763792857376''
       ''recording-1763792850000.mp3'' world0
     = (Inr (), world0\<lparr>calls := [StartTranscriptionJobCommand ''MyTranscriptionJob-1763792857376''
                                    ''s3://mint-bucket1/recording-1763792850000.mp3'' ''mint-bucket1'' None]\<rparr>)
   \<and> startTranscription part_000 object_missing ''MyTranscriptionJob-1763792857376'' [] world0
     = (Inl ''Invalid S3 URI constructed for Transcribe: s3://mint-in/'', world0)
   \<and> startTranscription part_000 object_missing ''MyTranscriptionJob-1763792857376''
       ''recording-1763792850000.mp3'' world0
     = (Inl ''S3 object not found or inaccessible: s3://mint-in/recording-1763792850000.mp3 -- NotFound'',
        world0\<lparr>calls := [HeadObjectCommand ''mint-in'' ''recording-1763792850000.mp3'']\<rparr>)"
  by (simp add: startTranscription_transcribe_js startJob_def Let_def send_def object_missing_def
      env0_def world0_def startTranscription_part_000_malformed
      startTranscription_part_000_missing isLineTerminator_def)

end
